theory Spec2Isabelle
  imports Complex_Main "HOL-Library.Word"
begin

section \<open>JavaScript strings and values\<close>

text \<open>
  A JavaScript string is a sequence of UTF-16 code units. \<open>js_str\<close> embeds the ASCII
  literals that occur in the component.
\<close>

type_synonym code_unit = "16 word"
type_synonym js_string = "code_unit list"

definition js_str :: "string \<Rightarrow> js_string" where
  "js_str s = map of_char s"

text \<open>
  A number is an IEEE double. Every finite double is a rational, so the finite doubles are
  embedded in \<open>Finite\<close> (with both zeros as \<open>Finite 0\<close>: nothing the component does tells
  them apart). The operations that round or print a double are fields of \<open>js_runtime\<close>
  below and stay uninterpreted.
\<close>

datatype js_number = NaN | PosInfinity | NegInfinity | Finite rat

text \<open>
  A parsed JSON document. A JavaScript value, as far as the component meets one, is such a
  document or \<open>undefined\<close>; \<open>JSON.parse\<close> never yields \<open>undefined\<close>, neither at
  the top nor inside an array or an object.
\<close>

datatype json =
    JNull
  | JBool bool
  | JNumber js_number
  | JString js_string
  | JArray "json list"
  | JObject "(js_string \<times> json) list"

type_synonym js_value = "json option"

abbreviation JUndefined :: js_value where
  "JUndefined \<equiv> None"

text \<open>A thrown value: an instance of \<open>Error\<close> with its message, or anything else.\<close>

datatype js_thrown = ThrownError js_string | ThrownOther

datatype 'a promise_result = Rejected js_thrown | Fulfilled 'a

text \<open>
  The primitives of the JavaScript engine that the model does not interpret: conversion
  between strings and doubles, the rounded product of two doubles, \<open>toFixed(0)\<close>, and the
  engine's wording of its two TypeErrors: for a property read on \<open>null\<close> or
  \<open>undefined\<close>, and for an object that has no primitive value.
\<close>

record js_runtime =
  string_to_number :: "js_string \<Rightarrow> js_number"
  number_to_string :: "js_number \<Rightarrow> js_string"
  number_times :: "js_number \<Rightarrow> js_number \<Rightarrow> js_number"
  number_toFixed0 :: "js_number \<Rightarrow> js_string"
  nullish_read_message :: "js_value \<Rightarrow> js_string \<Rightarrow> js_string"
  not_primitive_message :: js_string

fun number_truthy :: "js_number \<Rightarrow> bool" where
  "number_truthy NaN = False"
| "number_truthy PosInfinity = True"
| "number_truthy NegInfinity = True"
| "number_truthy (Finite r) = (r \<noteq> 0)"

fun number_gt_zero :: "js_number \<Rightarrow> bool" where
  "number_gt_zero NaN = False"
| "number_gt_zero PosInfinity = True"
| "number_gt_zero NegInfinity = False"
| "number_gt_zero (Finite r) = (0 < r)"

text \<open>ToBoolean.\<close>

fun truthy :: "js_value \<Rightarrow> bool" where
  "truthy JUndefined = False"
| "truthy (Some JNull) = False"
| "truthy (Some (JBool b)) = b"
| "truthy (Some (JNumber n)) = number_truthy n"
| "truthy (Some (JString s)) = (s \<noteq> [])"
| "truthy (Some (JArray xs)) = True"
| "truthy (Some (JObject kvs)) = True"

text \<open>The operator \<open>a || b\<close> on values.\<close>

definition js_or :: "js_value \<Rightarrow> js_value \<Rightarrow> js_value" where
  "js_or a b = (if truthy a then a else b)"

fun join_comma :: "js_string list \<Rightarrow> js_string" where
  "join_comma [] = []"
| "join_comma [x] = x"
| "join_comma (x # y # ys) = x @ of_char CHR '','' # join_comma (y # ys)"

text \<open>Sequencing of evaluations that may throw.\<close>

fun and_then :: "js_thrown + 'a \<Rightarrow> ('a \<Rightarrow> js_thrown + 'b) \<Rightarrow> js_thrown + 'b" where
  "and_then (Inl err) f = Inl err"
| "and_then (Inr v) f = f v"

text \<open>The results of a list of evaluations, up to the first one that throws.\<close>

fun collect :: "(js_thrown + 'a) list \<Rightarrow> js_thrown + 'a list" where
  "collect [] = Inr []"
| "collect (r # rs) = and_then r (\<lambda>x. and_then (collect rs) (\<lambda>xs. Inr (x # xs)))"

text \<open>
  ToString of a parsed document. An array goes through \<open>Array.prototype.join\<close>: its
  elements are converted in order, a \<open>null\<close> element as the empty string, and joined with
  commas. An object goes through OrdinaryToPrimitive: an own property \<open>toString\<close> of a
  parsed document is never callable and hides \<open>Object.prototype.toString\<close>, the inherited
  (or own, not callable) \<open>valueOf\<close> yields no primitive, and the conversion throws a
  TypeError; without such a property the result is \<open>[object Object]\<close>.
\<close>

fun json_to_string :: "js_runtime \<Rightarrow> json \<Rightarrow> js_thrown + js_string" where
  "json_to_string rt JNull = Inr (js_str ''null'')"
| "json_to_string rt (JBool b) = Inr (if b then js_str ''true'' else js_str ''false'')"
| "json_to_string rt (JNumber n) = Inr (number_to_string rt n)"
| "json_to_string rt (JString s) = Inr s"
| "json_to_string rt (JArray xs) =
     and_then (collect (map (\<lambda>x. if x = JNull then Inr [] else json_to_string rt x) xs))
       (\<lambda>strs. Inr (join_comma strs))"
| "json_to_string rt (JObject kvs) =
     (case map_of kvs (js_str ''toString'') of
        None \<Rightarrow> Inr (js_str ''[object Object]'')
      | Some v \<Rightarrow> Inl (ThrownError (not_primitive_message rt)))"

fun to_string :: "js_runtime \<Rightarrow> js_value \<Rightarrow> js_thrown + js_string" where
  "to_string rt JUndefined = Inr (js_str ''undefined'')"
| "to_string rt (Some v) = json_to_string rt v"

text \<open>
  ToNumber. Arrays and objects are first made primitive, which gives their string form
  (with either hint: \<open>valueOf\<close> never yields a primitive) or throws as above.
\<close>

fun to_number :: "js_runtime \<Rightarrow> js_value \<Rightarrow> js_thrown + js_number" where
  "to_number rt JUndefined = Inr NaN"
| "to_number rt (Some JNull) = Inr (Finite 0)"
| "to_number rt (Some (JBool b)) = Inr (Finite (if b then 1 else 0))"
| "to_number rt (Some (JNumber n)) = Inr n"
| "to_number rt (Some (JString s)) = Inr (string_to_number rt s)"
| "to_number rt (Some (JArray xs)) =
     and_then (json_to_string rt (JArray xs)) (\<lambda>str. Inr (string_to_number rt str))"
| "to_number rt (Some (JObject kvs)) =
     and_then (json_to_string rt (JObject kvs)) (\<lambda>str. Inr (string_to_number rt str))"

text \<open>
  Property read \<open>v.k\<close>. It throws a TypeError on \<open>null\<close> and \<open>undefined\<close>. An object
  yields its own property (the keys of a parsed JSON object are distinct); strings and
  arrays have \<open>length\<close>. None of the names the component reads (\<open>detail\<close>,
  \<open>execution_time\<close>, \<open>raw_data\<close>, \<open>result\<close>, \<open>length\<close>,
  \<open>natural_language_response\<close>, \<open>promql_query\<close>, \<open>grafana_url\<close>) is an index or
  a property of a built-in prototype, so every other read is \<open>undefined\<close>.
\<close>

fun get_prop :: "js_runtime \<Rightarrow> js_value \<Rightarrow> js_string \<Rightarrow> js_thrown + js_value" where
  "get_prop rt JUndefined k = Inl (ThrownError (nullish_read_message rt JUndefined k))"
| "get_prop rt (Some JNull) k = Inl (ThrownError (nullish_read_message rt (Some JNull) k))"
| "get_prop rt (Some (JBool b)) k = Inr JUndefined"
| "get_prop rt (Some (JNumber n)) k = Inr JUndefined"
| "get_prop rt (Some (JString s)) k =
     Inr (if k = js_str ''length'' then Some (JNumber (Finite (of_nat (length s))))
          else JUndefined)"
| "get_prop rt (Some (JArray xs)) k =
     Inr (if k = js_str ''length'' then Some (JNumber (Finite (of_nat (length xs))))
          else JUndefined)"
| "get_prop rt (Some (JObject kvs)) k = Inr (map_of kvs k)"

text \<open>Optional chaining \<open>v?.k\<close>.\<close>

definition opt_prop :: "js_runtime \<Rightarrow> js_value \<Rightarrow> js_string \<Rightarrow> js_thrown + js_value" where
  "opt_prop rt v k =
     (if v = JUndefined \<or> v = Some JNull then Inr JUndefined else get_prop rt v k)"

text \<open>
  \<open>String.prototype.trim\<close> strips WhiteSpace and LineTerminator code units from both ends.
\<close>

definition is_white_space :: "code_unit \<Rightarrow> bool" where
  "is_white_space c \<longleftrightarrow>
     c \<in> set [0x0009, 0x000A, 0x000B, 0x000C, 0x000D, 0x0020, 0x00A0, 0x1680,
               0x2028, 0x2029, 0x202F, 0x205F, 0x3000, 0xFEFF]
     \<or> (0x2000 \<le> c \<and> c \<le> 0x200A)"

definition trim :: "js_string \<Rightarrow> js_string" where
  "trim s = rev (dropWhile is_white_space (rev (dropWhile is_white_space s)))"

section \<open>The page component (src/pages/Index.tsx)\<close>

subsection \<open>State, network and effects\<close>

text \<open>
  The four \<open>useState\<close> cells. \<open>response\<close> is \<open>QueryResponse | null\<close>; the body of the
  reply is stored as parsed, types being erased at run time. \<open>error\<close> is \<open>string | null\<close>.
\<close>

record component_state =
  query :: js_string
  response :: json
  loading :: bool
  error :: "js_string option"

definition initial_state :: component_state where
  "initial_state = \<lparr>query = [], response = JNull, loading = False, error = None\<rparr>"

text \<open>
  The argument of \<open>fetch\<close>. \<open>body\<close> holds the value that is handed to \<open>JSON.stringify\<close>.
\<close>

record request =
  url :: js_string
  http_method :: js_string
  headers :: "(js_string \<times> js_string) list"
  body :: json

text \<open>
  What \<open>fetch\<close> resolves to: the status (\<open>res.ok\<close> is a status from 200 to 299) and the
  outcome of \<open>res.json()\<close>, which rejects when the body is not JSON.
\<close>

record http_response =
  status :: nat
  json :: "json promise_result"

definition response_ok :: "http_response \<Rightarrow> bool" where
  "response_ok res \<longleftrightarrow> 200 \<le> status res \<and> status res \<le> 299"

type_synonym network = "request \<Rightarrow> http_response promise_result"

record toast =
  title :: js_string
  description :: js_string
  variant :: "js_string option"

datatype effect = PreventDefault | Fetch request | Toast toast

text \<open>The network requests among the effects of a handler, in order.\<close>

fun fetches :: "effect list \<Rightarrow> request list" where
  "fetches [] = []"
| "fetches (Fetch req # effs) = req # fetches effs"
| "fetches (eff # effs) = fetches effs"

text \<open>
  The interface \<open>QueryResponse\<close>: \<open>natural_language_response: string\<close>,
  \<open>promql_query: string\<close>, \<open>raw_data: any\<close>, \<open>grafana_url?: string\<close>,
  \<open>execution_time: number\<close>.
\<close>

definition QueryResponse_fields :: "js_string list" where
  "QueryResponse_fields =
     [js_str ''natural_language_response'', js_str ''promql_query'', js_str ''raw_data'',
      js_str ''grafana_url'', js_str ''execution_time'']"

fun is_string :: "json \<Rightarrow> bool" where
  "is_string (JString s) = True"
| "is_string v = False"

fun is_number :: "json \<Rightarrow> bool" where
  "is_number (JNumber n) = True"
| "is_number v = False"

fun is_QueryResponse :: "json \<Rightarrow> bool" where
  "is_QueryResponse (JObject kvs) =
     ((case map_of kvs (js_str ''natural_language_response'') of
         Some v \<Rightarrow> is_string v | None \<Rightarrow> False) \<and>
      (case map_of kvs (js_str ''promql_query'') of
         Some v \<Rightarrow> is_string v | None \<Rightarrow> False) \<and>
      (case map_of kvs (js_str ''grafana_url'') of
         Some v \<Rightarrow> is_string v | None \<Rightarrow> True) \<and>
      (case map_of kvs (js_str ''execution_time'') of
         Some v \<Rightarrow> is_number v | None \<Rightarrow> False))"
| "is_QueryResponse v = False"

subsection \<open>getApiUrl and handleSubmit\<close>

text \<open>
  \<open>import.meta.env.VITE_API_URL\<close> is a string fixed at build time, or \<open>undefined\<close>.
\<close>

fun env_value :: "js_string option \<Rightarrow> js_value" where
  "env_value None = JUndefined"
| "env_value (Some u) = Some (JString u)"

definition getApiUrl :: "js_string option \<Rightarrow> js_value" where
  "getApiUrl VITE_API_URL =
     js_or (env_value VITE_API_URL) (Some (JString (js_str ''http://localhost:8000'')))"

definition exampleQueries :: "js_string list" where
  "exampleQueries =
     [js_str ''What's the average CPU usage?'',
      js_str ''Show me the request rate'',
      js_str ''What's the current memory usage?'',
      js_str ''What's the error rate?'',
      js_str ''Show me request latency'',
      js_str ''Is the system up?'']"

text \<open>
  The request of \<open>handleSubmit\<close>: \<open>fetch(`${apiUrl}/query`, {method: 'POST', ...})\<close>. The
  template literal converts \<open>apiUrl\<close> to a string.
\<close>

definition submit_request ::
  "js_runtime \<Rightarrow> js_string option \<Rightarrow> js_string \<Rightarrow> js_thrown + request" where
  "submit_request rt VITE_API_URL q =
     and_then (to_string rt (getApiUrl VITE_API_URL)) (\<lambda>apiUrl.
     Inr \<lparr>url = apiUrl @ js_str ''/query'',
          http_method = js_str ''POST'',
          headers = [(js_str ''Content-Type'', js_str ''application/json'')],
          body = JObject [(js_str ''query'', JString q)]\<rparr>)"

text \<open>
  \<open>`${(t * 1000).toFixed(0)}ms`\<close>: the product converts \<open>t\<close> to a number first, which
  may throw.
\<close>

definition milliseconds :: "js_runtime \<Rightarrow> js_value \<Rightarrow> js_thrown + js_string" where
  "milliseconds rt t =
     and_then (to_number rt t) (\<lambda>n.
     Inr (number_toFixed0 rt (number_times rt n (Finite 1000)) @ js_str ''ms''))"

text \<open>
  The \<open>try\<close> block: the state after it, the effects in order, and the value thrown, if any.
  In the branch of a success status the response is set before the description of the
  toast is computed.
\<close>

definition try_block ::
  "js_runtime \<Rightarrow> js_string option \<Rightarrow> network \<Rightarrow> component_state \<Rightarrow>
   component_state \<times> effect list \<times> js_thrown option" where
  "try_block rt VITE_API_URL net s =
     (case submit_request rt VITE_API_URL (query s) of
        Inl err \<Rightarrow> (s, [], Some err)
      | Inr req \<Rightarrow>
     (case net req of
        Rejected err \<Rightarrow> (s, [Fetch req], Some err)
      | Fulfilled res \<Rightarrow>
          (if \<not> response_ok res then
             (case json res of
                Rejected err \<Rightarrow> (s, [Fetch req], Some err)
              | Fulfilled errorData \<Rightarrow>
                  (case get_prop rt (Some errorData) (js_str ''detail'') of
                     Inl err \<Rightarrow> (s, [Fetch req], Some err)
                   | Inr detail \<Rightarrow>
                       (case to_string rt (js_or detail (Some (JString (js_str ''Query failed'')))) of
                          Inl err \<Rightarrow> (s, [Fetch req], Some err)
                        | Inr message \<Rightarrow> (s, [Fetch req], Some (ThrownError message)))))
           else
             (case json res of
                Rejected err \<Rightarrow> (s, [Fetch req], Some err)
              | Fulfilled data \<Rightarrow>
                  (let s' = s\<lparr>response := data\<rparr> in
                   case get_prop rt (Some data) (js_str ''execution_time'') of
                     Inl err \<Rightarrow> (s', [Fetch req], Some err)
                   | Inr t \<Rightarrow>
                       (case milliseconds rt t of
                          Inl err \<Rightarrow> (s', [Fetch req], Some err)
                        | Inr ms \<Rightarrow>
                            (s',
                             [Fetch req,
                              Toast \<lparr>title = js_str ''Query successful!'',
                                     description = js_str ''Executed in '' @ ms,
                                     variant = None\<rparr>],
                             None)))))))"

text \<open>The \<open>catch\<close> clause.\<close>

definition catch_block :: "js_thrown \<Rightarrow> component_state \<Rightarrow> component_state \<times> effect list" where
  "catch_block err s =
     (let errorMessage =
            (case err of ThrownError m \<Rightarrow> m | ThrownOther \<Rightarrow> js_str ''An error occurred'')
      in (s\<lparr>error := Some errorMessage\<rparr>,
          [Toast \<lparr>title = js_str ''Query failed'', description = errorMessage,
                  variant = Some (js_str ''destructive'')\<rparr>]))"

definition handleSubmit ::
  "js_runtime \<Rightarrow> js_string option \<Rightarrow> network \<Rightarrow> component_state \<Rightarrow>
   component_state \<times> effect list" where
  "handleSubmit rt VITE_API_URL net s =
     (if \<not> truthy (Some (JString (trim (query s)))) then (s, [PreventDefault])
      else
        (let s1 = s\<lparr>loading := True, error := None, response := JNull\<rparr> in
         case try_block rt VITE_API_URL net s1 of
           (s2, effs, None) \<Rightarrow> (s2\<lparr>loading := False\<rparr>, PreventDefault # effs)
         | (s2, effs, Some err) \<Rightarrow>
             (case catch_block err s2 of
                (s3, effs') \<Rightarrow> (s3\<lparr>loading := False\<rparr>, PreventDefault # effs @ effs'))))"

definition handleExampleClick :: "js_string \<Rightarrow> component_state \<Rightarrow> component_state" where
  "handleExampleClick exampleQuery s = s\<lparr>query := exampleQuery\<rparr>"

text \<open>
  The events of the page: typing into the input, a click on the \<open>i\<close>-th example button, a
  submission of the form (with the network as it answers that submission). A submission is
  one step, from the call of the handler to the end of its \<open>finally\<close> clause: the input,
  the example buttons and the submit button are disabled while \<open>loading\<close> is true.
\<close>

datatype event = Change js_string | ExampleClick nat | Submit network

fun step :: "js_runtime \<Rightarrow> js_string option \<Rightarrow> event \<Rightarrow> component_state \<Rightarrow> component_state" where
  "step rt env (Change v) s = s\<lparr>query := v\<rparr>"
| "step rt env (ExampleClick i) s =
     (if i < length exampleQueries then handleExampleClick (exampleQueries ! i) s else s)"
| "step rt env (Submit net) s = fst (handleSubmit rt env net s)"

fun run :: "js_runtime \<Rightarrow> js_string option \<Rightarrow> event list \<Rightarrow> component_state \<Rightarrow> component_state" where
  "run rt env [] s = s"
| "run rt env (ev # evs) s = run rt env evs (step rt env ev s)"

subsection \<open>The rendered page\<close>

text \<open>
  A JSX child \<open>{v && <element/>}\<close> is the element when \<open>v\<close> is truthy and the value \<open>v\<close>
  itself otherwise.
\<close>

datatype 'a jsx_child = Value js_value | Element 'a

text \<open>
  The parts of the response display that depend on the state. \<open>raw_data_panel\<close> holds the
  value handed to \<open>JSON.stringify(_, null, 2)\<close>, \<open>grafana_link\<close> the \<open>href\<close>.
\<close>

record response_display =
  answer_text :: js_value
  promql_text :: js_value
  execution_time_badge :: js_string
  data_points_badge :: js_value
  grafana_link :: "js_value jsx_child"
  raw_data_panel :: "js_value jsx_child"

record page =
  input_disabled :: bool
  submit_disabled :: bool
  examples_disabled :: bool
  error_alert :: "js_string jsx_child"
  response_panel :: "response_display jsx_child"

text \<open>\<open>response.raw_data?.result?.length || 0\<close>\<close>

definition data_points :: "js_runtime \<Rightarrow> js_value \<Rightarrow> js_thrown + js_value" where
  "data_points rt resp =
     and_then (get_prop rt resp (js_str ''raw_data'')) (\<lambda>raw_data.
     and_then (opt_prop rt raw_data (js_str ''result'')) (\<lambda>result.
     and_then (opt_prop rt result (js_str ''length'')) (\<lambda>len.
     Inr (js_or len (Some (JNumber (Finite 0)))))))"

text \<open>
  \<open>response.raw_data?.result && response.raw_data.result.length > 0 && (<Card>...</Card>)\<close>.
  The comparison converts the length to a number, which may throw. The card shows
  \<open>JSON.stringify(response.raw_data, null, 2)\<close>, which does not throw on a parsed document.
\<close>

definition raw_data_child :: "js_runtime \<Rightarrow> js_value \<Rightarrow> js_thrown + js_value jsx_child" where
  "raw_data_child rt resp =
     and_then (get_prop rt resp (js_str ''raw_data'')) (\<lambda>raw_data.
     and_then (opt_prop rt raw_data (js_str ''result'')) (\<lambda>result.
     if \<not> truthy result then Inr (Value result)
     else
       and_then (get_prop rt resp (js_str ''raw_data'')) (\<lambda>raw_data'.
       and_then (get_prop rt raw_data' (js_str ''result'')) (\<lambda>result'.
       and_then (get_prop rt result' (js_str ''length'')) (\<lambda>len.
       and_then (to_number rt len) (\<lambda>n.
       if \<not> number_gt_zero n then Inr (Value (Some (JBool False)))
       else
         and_then (get_prop rt resp (js_str ''raw_data'')) (\<lambda>shown.
         Inr (Element shown))))))))"

text \<open>\<open>response.grafana_url && (<div>...<a href={response.grafana_url}>...</div>)\<close>\<close>

definition grafana_child :: "js_runtime \<Rightarrow> js_value \<Rightarrow> js_thrown + js_value jsx_child" where
  "grafana_child rt resp =
     and_then (get_prop rt resp (js_str ''grafana_url'')) (\<lambda>grafana_url.
     if \<not> truthy grafana_url then Inr (Value grafana_url)
     else and_then (get_prop rt resp (js_str ''grafana_url'')) (\<lambda>href. Inr (Element href)))"

definition render_response :: "js_runtime \<Rightarrow> js_value \<Rightarrow> js_thrown + response_display" where
  "render_response rt resp =
     and_then (get_prop rt resp (js_str ''natural_language_response'')) (\<lambda>a.
     and_then (get_prop rt resp (js_str ''promql_query'')) (\<lambda>p.
     and_then (get_prop rt resp (js_str ''execution_time'')) (\<lambda>t.
     and_then (milliseconds rt t) (\<lambda>ms.
     and_then (data_points rt resp) (\<lambda>n.
     and_then (grafana_child rt resp) (\<lambda>g.
     and_then (raw_data_child rt resp) (\<lambda>r.
     Inr \<lparr>answer_text = a, promql_text = p, execution_time_badge = ms,
          data_points_badge = n, grafana_link = g, raw_data_panel = r\<rparr>)))))))"

text \<open>
  The evaluation of the component function at a state: the value it returns (the page
  around the response display, and the response display under \<open>{response && (...)}\<close>),
  or the value it throws. What React does afterwards with the children it is handed is
  outside the component and not modelled.
\<close>

definition page_of :: "component_state \<Rightarrow> response_display jsx_child \<Rightarrow> page" where
  "page_of s panel =
     \<lparr>input_disabled = loading s,
      submit_disabled = (loading s \<or> \<not> truthy (Some (JString (trim (query s))))),
      examples_disabled = loading s,
      error_alert =
        (case error s of
           None \<Rightarrow> Value (Some JNull)
         | Some m \<Rightarrow>
             if \<not> truthy (Some (JString m)) then Value (Some (JString m)) else Element m),
      response_panel = panel\<rparr>"

definition render :: "js_runtime \<Rightarrow> component_state \<Rightarrow> js_thrown + page" where
  "render rt s =
     and_then
       (if \<not> truthy (Some (response s)) then Inr (Value (Some (response s)))
        else and_then (render_response rt (Some (response s))) (\<lambda>d. Inr (Element d)))
       (\<lambda>panel. Inr (page_of s panel))"

subsection \<open>Values for evaluating the component on examples\<close>

text \<open>
  A runtime in which every uninterpreted primitive returns one fixed value (none of the
  examples below depends on them), a network that is down, and a network that replies to
  every request with a given status and document.
\<close>

definition example_runtime :: js_runtime where
  "example_runtime =
     \<lparr>string_to_number = (\<lambda>s. NaN),
      number_to_string = (\<lambda>n. js_str ''NaN''),
      number_times = (\<lambda>a b. NaN),
      number_toFixed0 = (\<lambda>n. js_str ''NaN''),
      nullish_read_message = (\<lambda>v k. js_str ''Cannot read properties of null''),
      not_primitive_message = js_str ''Cannot convert object to primitive value''\<rparr>"

definition network_down :: network where
  "network_down req = Rejected (ThrownError (js_str ''Failed to fetch''))"

definition replies :: "nat \<Rightarrow> json \<Rightarrow> network" where
  "replies code doc req = Fulfilled \<lparr>status = code, json = Fulfilled doc\<rparr>"

definition blank_state :: component_state where
  "blank_state = initial_state\<lparr>query := js_str ''   ''\<rparr>"

definition asking_state :: component_state where
  "asking_state = initial_state\<lparr>query := js_str ''What's the average CPU usage?''\<rparr>"

text \<open>The response of the README's API reference, without and with a Grafana link.\<close>

definition example_answer :: "(js_string \<times> json) list" where
  "example_answer =
     [(js_str ''natural_language_response'', JString (js_str ''The CPU usage is currently 45.2%'')),
      (js_str ''promql_query'', JString (js_str ''rate(cpu_usage_percent[5m])'')),
      (js_str ''raw_data'',
         JObject [(js_str ''resultType'', JString (js_str ''vector'')),
                  (js_str ''result'',
                     JArray [JObject [(js_str ''value'', JString (js_str ''45.2''))]])]),
      (js_str ''execution_time'', JNumber (Finite (123 / 1000)))]"

definition example_answer_linked :: "(js_string \<times> json) list" where
  "example_answer_linked =
     (js_str ''grafana_url'', JString (js_str ''http://localhost:3000/explore'')) # example_answer"

definition example_answer_empty_link :: "(js_string \<times> json) list" where
  "example_answer_empty_link = (js_str ''grafana_url'', JString []) # example_answer"

text \<open>An error body as FastAPI sends it for an \<open>HTTPException\<close>.\<close>

definition not_found :: json where
  "not_found = JObject [(js_str ''detail'', JString (js_str ''Not Found''))]"

text \<open>The body FastAPI sends with status 422 when the request does not validate.\<close>

definition validation_error :: json where
  "validation_error =
     JObject [(js_str ''detail'',
        JArray [JObject [(js_str ''loc'', JArray [JString (js_str ''body''), JString (js_str ''query'')]),
                         (js_str ''msg'', JString (js_str ''field required'')),
                         (js_str ''type'', JString (js_str ''value_error.missing''))]])]"

text \<open>
  Documents that \<open>JSON.parse\<close> delivers and that have no primitive value where the page
  wants a number: an execution time, and a length of the result, with an own property
  \<open>toString\<close>.
\<close>

definition odd_time :: json where
  "odd_time =
     JObject [(js_str ''execution_time'', JObject [(js_str ''toString'', JNumber (Finite 0))])]"

definition odd_length :: json where
  "odd_length =
     JObject [(js_str ''raw_data'',
       JObject [(js_str ''result'',
         JObject [(js_str ''length'', JObject [(js_str ''toString'', JNumber (Finite 0))])])])]"

subsection \<open>Notions used to state the properties of the component\<close>

text \<open>The member \<open>k\<close> of a document: present only in an object that has the key.\<close>

fun member :: "json \<Rightarrow> js_string \<Rightarrow> json option" where
  "member (JObject kvs) k = map_of kvs k"
| "member v k = None"

text \<open>\<open>raw_data.result\<close> of a response, when both \<open>raw_data\<close> and its \<open>result\<close> are there.\<close>

definition raw_result :: "json \<Rightarrow> json option" where
  "raw_result resp =
     (case member resp (js_str ''raw_data'') of
        None \<Rightarrow> None
      | Some raw_data \<Rightarrow> member raw_data (js_str ''result''))"

text \<open>
  The documents that have a primitive value: every document but an object with an own
  property \<open>toString\<close> and an array that holds, at any depth of arrays, such an object.
\<close>

fun converts :: "json \<Rightarrow> bool" where
  "converts (JObject kvs) = (map_of kvs (js_str ''toString'') = None)"
| "converts (JArray xs) = list_all converts xs"
| "converts v = True"

fun value_converts :: "js_value \<Rightarrow> bool" where
  "value_converts JUndefined = True"
| "value_converts (Some v) = converts v"

text \<open>
  A response whose \<open>execution_time\<close> has a primitive value (or is absent), and a response
  whose \<open>raw_data.result\<close> is not an object with a \<open>length\<close> that has none.
\<close>

definition time_converts :: "json \<Rightarrow> bool" where
  "time_converts resp = value_converts (member resp (js_str ''execution_time''))"

definition guard_converts :: "json \<Rightarrow> bool" where
  "guard_converts resp =
     (case raw_result resp of
        Some (JObject kvs) \<Rightarrow> value_converts (map_of kvs (js_str ''length''))
      | _ \<Rightarrow> True)"

text \<open>The request of a submitted question, written out.\<close>

definition query_request :: "js_string option \<Rightarrow> js_string \<Rightarrow> request" where
  "query_request VITE_API_URL q =
     \<lparr>url = (case VITE_API_URL of
               None \<Rightarrow> js_str ''http://localhost:8000''
             | Some u \<Rightarrow> if u = [] then js_str ''http://localhost:8000'' else u)
            @ js_str ''/query'',
      http_method = js_str ''POST'',
      headers = [(js_str ''Content-Type'', js_str ''application/json'')],
      body = JObject [(js_str ''query'', JString q)]\<rparr>"

text \<open>A string, an array or an object with at least one element.\<close>

fun non_empty :: "json \<Rightarrow> bool" where
  "non_empty (JString s) = (s \<noteq> [])"
| "non_empty (JArray xs) = (xs \<noteq> [])"
| "non_empty (JObject kvs) = (kvs \<noteq> [])"
| "non_empty v = False"

text \<open>
  The document that the network delivers with a success status in reply to a request, if
  it delivers one.
\<close>

definition delivered :: "network \<Rightarrow> request \<Rightarrow> json option" where
  "delivered net req =
     (case net req of
        Rejected err \<Rightarrow> None
      | Fulfilled res \<Rightarrow>
          if response_ok res
          then (case json res of Rejected err \<Rightarrow> None | Fulfilled doc \<Rightarrow> Some doc)
          else None)"

text \<open>
  A network all of whose deliveries have an \<open>execution_time\<close> with a primitive value, as
  every number has; an event that is not a submission to another network.
\<close>

definition typed_network :: "network \<Rightarrow> bool" where
  "typed_network net \<longleftrightarrow> (\<forall>req doc. delivered net req = Some doc \<longrightarrow> time_converts doc)"

fun typed_event :: "event \<Rightarrow> bool" where
  "typed_event (Submit net) = typed_network net"
| "typed_event ev = True"

text \<open>
  A state between two submissions: nothing is loading, and the response and the error are
  not both set.
\<close>

definition settled :: "component_state \<Rightarrow> bool" where
  "settled s \<longleftrightarrow> loading s = False \<and> (response s = JNull \<or> error s = None)"

section \<open>The query pipeline behind the /query endpoint\<close>

text \<open>
  Modelled from the spec: the backend (backend/main.py, the translator, the executor and the
  synthesizer) is not among the sources. The definitions of this section follow sections 2
  to 4 and 7 of the specification. The pattern language, the case normalisation, the
  substitution of defaults into a template and the classification of a rule are not given
  there and are the fields of \<open>matcher\<close>.
\<close>

text \<open>Modelled from the spec: the QueryKind labels of section 3.\<close>

datatype query_kind = Cpu | Memory | Rate | Latency | Errors | Availability | Unknown

text \<open>
  Modelled from the spec: the three failure kinds of section 7; \<open>UnrecognizedQuery\<close>
  carries the original text, \<open>StoreQueryError\<close> the store's message.
\<close>

datatype pipeline_error = UnrecognizedQuery string | StoreQueryError string | StoreUnavailable

text \<open>
  Modelled from the spec: what section 4.1 leaves open about the Pattern Matcher. A pattern
  of type \<open>'p\<close> is tested against the case-normalised question; a template becomes a
  structured query by substitution of its defaults; a rule determines the query kind.
\<close>

record 'p matcher =
  matches :: "'p \<Rightarrow> string \<Rightarrow> bool"
  normalise_case :: "string \<Rightarrow> string"
  substitute :: "string \<Rightarrow> string"
  classify :: "'p \<times> string \<Rightarrow> query_kind"

text \<open>
  Modelled from the spec: a rule is a pair of a pattern and a template; the rule set is
  iterated in its declaration order and the first rule whose pattern matches is used.
\<close>

fun first_match :: "('p \<Rightarrow> string \<Rightarrow> bool) \<Rightarrow> ('p \<times> string) list \<Rightarrow> string \<Rightarrow> ('p \<times> string) option" where
  "first_match m [] text = None"
| "first_match m (rule # rules) text =
     (if m (fst rule) text then Some rule else first_match m rules text)"

text \<open>
  Modelled from the spec: \<open>translate(question) -> (StructuredQuery, QueryKind)\<close>, failing
  with \<open>UnrecognizedQuery\<close>, which carries the original text, when no rule matches.
\<close>

definition translate :: "'p matcher \<Rightarrow> ('p \<times> string) list \<Rightarrow> string \<Rightarrow> pipeline_error + string \<times> query_kind" where
  "translate mt rules question =
     (case first_match (matches mt) rules (normalise_case mt question) of
        None \<Rightarrow> Inl (UnrecognizedQuery question)
      | Some rule \<Rightarrow> Inr (substitute mt (snd rule), classify mt rule))"

text \<open>
  Modelled from the spec: the rules that "could match the same input" (section 8), as the
  positions of the rules whose pattern matches the question, in declaration order.
\<close>

definition matching_positions :: "'p matcher \<Rightarrow> ('p \<times> string) list \<Rightarrow> string \<Rightarrow> nat list" where
  "matching_positions mt rules question =
     filter (\<lambda>i. matches mt (fst (rules ! i)) (normalise_case mt question)) [0..<length rules]"

text \<open>
  Modelled from the spec: the reply of the metrics store to one instant query (unreachable,
  or an envelope of a status, a result array and an error message) with the duration
  measured around the call.
\<close>

datatype ('s, 'd) store_reply = Unreachable | Envelope bool "'s list" string 'd

text \<open>
  Modelled from the spec: \<open>execute\<close> sends the query verbatim; a non-success status is
  \<open>StoreQueryError\<close> with the store's message, an unreachable store \<open>StoreUnavailable\<close>.
\<close>

definition execute :: "(string \<Rightarrow> ('s, 'd) store_reply) \<Rightarrow> string \<Rightarrow> pipeline_error + 's list \<times> 'd" where
  "execute store q =
     (case store q of
        Unreachable \<Rightarrow> Inl StoreUnavailable
      | Envelope success result msg duration \<Rightarrow>
          if success then Inr (result, duration) else Inl (StoreQueryError msg))"

text \<open>Modelled from the spec: the AnswerResponse of section 3.\<close>

record ('s, 'd) AnswerResponse =
  sentence :: string
  structured_query :: string
  series :: "'s list"
  visualization_url :: "string option"
  execution_latency :: 'd

text \<open>
  Modelled from the spec: \<open>answer\<close> runs translate, execute and synthesize in strict
  pipeline order and propagates a failure of a stage. The second component is the list of
  the queries sent to the metrics store while the request is handled.
\<close>

definition answer ::
  "'p matcher \<Rightarrow> (string \<Rightarrow> ('s, 'd) store_reply) \<Rightarrow>
   (query_kind \<Rightarrow> 's list \<Rightarrow> string \<Rightarrow> string \<times> string option) \<Rightarrow>
   ('p \<times> string) list \<Rightarrow> string \<Rightarrow> (pipeline_error + ('s, 'd) AnswerResponse) \<times> string list" where
  "answer mt store synthesize rules question =
     (case translate mt rules question of
        Inl err \<Rightarrow> (Inl err, [])
      | Inr (q, kind) \<Rightarrow>
          (case execute store q of
             Inl err \<Rightarrow> (Inl err, [q])
           | Inr (result, duration) \<Rightarrow>
               (case synthesize kind result q of
                  (text, link) \<Rightarrow>
                    (Inr \<lparr>sentence = text, structured_query = q, series = result,
                          visualization_url = link, execution_latency = duration\<rparr>,
                     [q]))))"

text \<open>
  A matcher for examples: a pattern is a word, it matches when it is a contiguous part of
  the text; the normalisation lowers the ASCII capitals; templates have no parameters.
\<close>

fun is_infix :: "string \<Rightarrow> string \<Rightarrow> bool" where
  "is_infix p [] = (p = [])"
| "is_infix p (c # cs) = (take (length p) (c # cs) = p \<or> is_infix p cs)"

definition lower_ascii :: "char \<Rightarrow> char" where
  "lower_ascii c =
     (case map_of (zip ''ABCDEFGHIJKLMNOPQRSTUVWXYZ'' ''abcdefghijklmnopqrstuvwxyz'') c of
        None \<Rightarrow> c
      | Some l \<Rightarrow> l)"

definition example_matcher :: "string matcher" where
  "example_matcher =
     \<lparr>matches = is_infix, normalise_case = map lower_ascii, substitute = (\<lambda>t. t),
      classify = (\<lambda>rule. Unknown)\<rparr>"

definition example_rules :: "(string \<times> string) list" where
  "example_rules =
     [(''cpu'', ''avg(cpu_usage_percent)''),
      (''usage'', ''avg(memory_usage_bytes)''),
      (''average cpu'', ''avg_over_time(cpu_usage_percent[5m])'')]"

section \<open>Properties of the page component\<close>

subsection \<open>Conversions that may throw\<close>

lemma collect_all:
  "\<forall>r \<in> set rs. \<exists>x. r = Inr x \<Longrightarrow> \<exists>xs. collect rs = Inr xs"
proof (induction rs)
  case Nil
  then show ?case by simp
next
  case (Cons r rs)
  then obtain x xs where "r = Inr x" and "collect rs = Inr xs"
    by auto
  then show ?case by simp
qed

lemma collect_some:
  assumes "\<forall>r \<in> set rs. (\<exists>x. r = Inr x) \<or> r = Inl e"
    and "\<exists>r \<in> set rs. r = Inl e"
  shows "collect rs = Inl e"
  using assms
proof (induction rs)
  case Nil
  then show ?case by simp
next
  case (Cons r rs)
  show ?case
  proof (cases r)
    case (Inl a)
    then have "a = e" using Cons.prems(1) by auto
    then show ?thesis using Inl by simp
  next
    case (Inr x)
    then have "\<exists>r \<in> set rs. r = Inl e" using Cons.prems(2) by auto
    moreover have "\<forall>r \<in> set rs. (\<exists>x. r = Inr x) \<or> r = Inl e"
      using Cons.prems(1) by auto
    ultimately have "collect rs = Inl e" using Cons.IH by blast
    then show ?thesis using Inr by simp
  qed
qed

lemma json_to_string_cases:
  "(converts j \<longrightarrow> (\<exists>str. json_to_string rt j = Inr str)) \<and>
   (\<not> converts j \<longrightarrow> json_to_string rt j = Inl (ThrownError (not_primitive_message rt)))"
proof (induction j)
  case (JArray xs)
  let ?e = "ThrownError (not_primitive_message rt)"
  let ?rs = "map (\<lambda>x. if x = JNull then Inr [] else json_to_string rt x) xs"
  have each: "\<forall>r \<in> set ?rs. (\<exists>x. r = Inr x) \<or> r = Inl ?e"
    using JArray by (auto simp: image_iff)
  show ?case
  proof (intro conjI impI)
    assume "converts (JArray xs)"
    then have "\<forall>x \<in> set xs. converts x" by (simp add: list_all_iff)
    then have "\<forall>r \<in> set ?rs. \<exists>x. r = Inr x"
      using JArray by auto
    then obtain strs where "collect ?rs = Inr strs"
      using collect_all by blast
    then show "\<exists>str. json_to_string rt (JArray xs) = Inr str" by simp
  next
    assume "\<not> converts (JArray xs)"
    then obtain x where x: "x \<in> set xs" "\<not> converts x"
      by (auto simp: list_all_iff)
    then have n: "x \<noteq> JNull" by auto
    have "json_to_string rt x = Inl ?e"
      using JArray x by auto
    then have fx: "(if x = JNull then Inr [] else json_to_string rt x) = Inl ?e"
      using n by simp
    have "(if x = JNull then Inr [] else json_to_string rt x) \<in> set ?rs"
      using x(1) by (simp del: json_to_string.simps)
    then have "Inl ?e \<in> set ?rs"
      unfolding fx .
    then have "\<exists>r \<in> set ?rs. r = Inl ?e"
      by blast
    then have "collect ?rs = Inl ?e"
      using collect_some [OF each] by blast
    then show "json_to_string rt (JArray xs) = Inl ?e" by simp
  qed
qed (auto split: option.splits)

lemma json_to_string_converts: "converts j \<Longrightarrow> \<exists>str. json_to_string rt j = Inr str"
  using json_to_string_cases by blast

lemma json_to_string_throws:
  "\<not> converts j \<Longrightarrow> json_to_string rt j = Inl (ThrownError (not_primitive_message rt))"
  using json_to_string_cases by blast

lemma to_number_converts: "value_converts v \<Longrightarrow> \<exists>n. to_number rt v = Inr n"
proof (cases v)
  case None
  then show ?thesis by simp
next
  case (Some j)
  assume "value_converts v"
  then have c: "converts j" using Some by simp
  show ?thesis
  proof (cases j)
    case (JArray xs)
    then obtain str where "json_to_string rt (JArray xs) = Inr str"
      using json_to_string_converts c by blast
    then show ?thesis using Some JArray by simp
  next
    case (JObject kvs)
    then obtain str where "json_to_string rt (JObject kvs) = Inr str"
      using json_to_string_converts c by blast
    then show ?thesis using Some JObject by (simp del: json_to_string.simps)
  qed (simp_all add: Some)
qed

lemma to_number_throws:
  assumes "\<not> value_converts v"
  shows "to_number rt v = Inl (ThrownError (not_primitive_message rt))"
proof -
  obtain j where v: "v = Some j" and c: "\<not> converts j"
    using assms by (cases v) auto
  show ?thesis
  proof (cases j)
    case (JArray xs)
    then show ?thesis using json_to_string_throws [OF c, of rt] v
      by (simp del: json_to_string.simps)
  next
    case (JObject kvs)
    then show ?thesis using json_to_string_throws [OF c, of rt] v
      by (simp del: json_to_string.simps)
  qed (use c in simp_all)
qed

lemma milliseconds_converts: "value_converts t \<Longrightarrow> \<exists>ms. milliseconds rt t = Inr ms"
proof -
  assume "value_converts t"
  then obtain n where "to_number rt t = Inr n"
    using to_number_converts by blast
  then show ?thesis by (simp add: milliseconds_def)
qed

lemma milliseconds_throws:
  "\<not> value_converts t \<Longrightarrow> milliseconds rt t = Inl (ThrownError (not_primitive_message rt))"
  by (simp add: milliseconds_def to_number_throws)

lemma milliseconds_number:
  "milliseconds rt (Some (JNumber x)) =
     Inr (number_toFixed0 rt (number_times rt x (Finite 1000)) @ js_str ''ms'')"
  by (simp add: milliseconds_def)

lemma submit_request_eq: "submit_request rt env q = Inr (query_request env q)"
  by (cases env) (simp_all add: submit_request_def query_request_def getApiUrl_def js_or_def)

subsection \<open>Evaluation of the guarded reads and of the page\<close>

lemma get_prop_truthy: "truthy v \<Longrightarrow> \<exists>x. get_prop rt v k = Inr x"
  by (cases "(rt, v, k)" rule: get_prop.cases) auto

lemma get_prop_member:
  "truthy (Some resp) \<Longrightarrow> k \<noteq> js_str ''length'' \<Longrightarrow>
   get_prop rt (Some resp) k = Inr (member resp k)"
  by (cases resp) auto

lemma get_prop_doc:
  "v \<noteq> JNull \<Longrightarrow> k \<noteq> js_str ''length'' \<Longrightarrow> get_prop rt (Some v) k = Inr (member v k)"
  by (cases v) auto

lemma opt_prop_total: "\<exists>x. opt_prop rt v k = Inr x"
  by (cases "(rt, v, k)" rule: get_prop.cases) (auto simp: opt_prop_def)

lemma opt_prop_member:
  "k \<noteq> js_str ''length'' \<Longrightarrow>
   opt_prop rt v k = Inr (case v of None \<Rightarrow> None | Some doc \<Rightarrow> member doc k)"
  by (cases "(rt, v, k)" rule: get_prop.cases) (auto simp: opt_prop_def)

lemma opt_prop_truthy:
  "opt_prop rt v k = Inr x \<Longrightarrow> truthy x \<Longrightarrow> get_prop rt v k = Inr x"
  by (auto simp: opt_prop_def split: if_splits)

lemma keys_distinct:
  "js_str ''raw_data'' \<noteq> js_str ''length''"
  "js_str ''result'' \<noteq> js_str ''length''"
  "js_str ''grafana_url'' \<noteq> js_str ''length''"
  "js_str ''natural_language_response'' \<noteq> js_str ''length''"
  "js_str ''promql_query'' \<noteq> js_str ''length''"
  "js_str ''execution_time'' \<noteq> js_str ''length''"
  "js_str ''detail'' \<noteq> js_str ''length''"
  by (simp_all add: js_str_def)

lemma data_points_eq:
  assumes "truthy (Some resp)"
  shows "data_points rt (Some resp) =
     and_then (opt_prop rt (raw_result resp) (js_str ''length''))
       (\<lambda>len. Inr (js_or len (Some (JNumber (Finite 0)))))"
  using assms
  by (simp add: data_points_def get_prop_member opt_prop_member keys_distinct raw_result_def)

lemma data_points_total:
  assumes "truthy (Some resp)"
  shows "\<exists>n. data_points rt (Some resp) = Inr n"
proof -
  obtain len where "opt_prop rt (raw_result resp) (js_str ''length'') = Inr len"
    using opt_prop_total by blast
  then show ?thesis by (simp add: data_points_eq [OF assms])
qed

lemma raw_data_child_eq:
  assumes "truthy (Some resp)"
  shows "raw_data_child rt (Some resp) =
     (if \<not> truthy (raw_result resp) then Inr (Value (raw_result resp))
      else and_then (get_prop rt (raw_result resp) (js_str ''length'')) (\<lambda>len.
           and_then (to_number rt len) (\<lambda>n.
           if \<not> number_gt_zero n then Inr (Value (Some (JBool False)))
           else Inr (Element (member resp (js_str ''raw_data''))))))"
proof -
  have a: "get_prop rt (Some resp) (js_str ''raw_data'') = Inr (member resp (js_str ''raw_data''))"
    using assms by (simp add: get_prop_member keys_distinct)
  have b: "opt_prop rt (member resp (js_str ''raw_data'')) (js_str ''result'') = Inr (raw_result resp)"
    by (simp add: opt_prop_member keys_distinct raw_result_def)
  show ?thesis
  proof (cases "truthy (raw_result resp)")
    case False
    then show ?thesis by (simp add: raw_data_child_def a b)
  next
    case True
    have c: "get_prop rt (member resp (js_str ''raw_data'')) (js_str ''result'') = Inr (raw_result resp)"
      using opt_prop_truthy [OF b True] .
    obtain len where len: "get_prop rt (raw_result resp) (js_str ''length'') = Inr len"
      using get_prop_truthy [OF True] by blast
    show ?thesis
    proof (cases "to_number rt len")
      case (Inl err)
      then show ?thesis using True by (simp add: raw_data_child_def a b c len)
    next
      case (Inr n)
      then show ?thesis using True by (simp add: raw_data_child_def a b c len)
    qed
  qed
qed

lemma raw_data_child_total:
  assumes t: "truthy (Some resp)" and g: "guard_converts resp"
  shows "\<exists>c. raw_data_child rt (Some resp) = Inr c"
proof (cases "truthy (raw_result resp)")
  case False
  then show ?thesis by (simp add: raw_data_child_eq [OF t])
next
  case True
  then obtain r where r: "raw_result resp = Some r"
    by (cases "raw_result resp") auto
  obtain len where len: "get_prop rt (Some r) (js_str ''length'') = Inr len"
    using get_prop_truthy True r by metis
  have "value_converts len"
    using g r len by (cases r) (auto simp: guard_converts_def split: if_splits)
  then obtain n where "to_number rt len = Inr n"
    using to_number_converts by blast
  then show ?thesis using True r len by (simp add: raw_data_child_eq [OF t])
qed

lemma raw_data_child_throws:
  assumes t: "truthy (Some resp)" and g: "\<not> guard_converts resp"
  shows "raw_data_child rt (Some resp) = Inl (ThrownError (not_primitive_message rt))"
proof -
  obtain kvs where r: "raw_result resp = Some (JObject kvs)"
    and c: "\<not> value_converts (map_of kvs (js_str ''length''))"
    using g by (auto simp: guard_converts_def split: option.splits json.splits)
  show ?thesis
    using r to_number_throws [OF c, of rt] by (simp add: raw_data_child_eq [OF t])
qed

lemma grafana_child_eq:
  assumes "truthy (Some resp)"
  shows "grafana_child rt (Some resp) =
     Inr (if truthy (member resp (js_str ''grafana_url''))
          then Element (member resp (js_str ''grafana_url''))
          else Value (member resp (js_str ''grafana_url'')))"
  using assms by (simp add: grafana_child_def get_prop_member keys_distinct)

lemma render_response_eq:
  assumes "truthy (Some resp)"
  shows "render_response rt (Some resp) =
     and_then (milliseconds rt (member resp (js_str ''execution_time''))) (\<lambda>ms.
     and_then (data_points rt (Some resp)) (\<lambda>n.
     and_then (raw_data_child rt (Some resp)) (\<lambda>r.
     Inr \<lparr>answer_text = member resp (js_str ''natural_language_response''),
          promql_text = member resp (js_str ''promql_query''),
          execution_time_badge = ms,
          data_points_badge = n,
          grafana_link =
            (if truthy (member resp (js_str ''grafana_url''))
             then Element (member resp (js_str ''grafana_url''))
             else Value (member resp (js_str ''grafana_url''))),
          raw_data_panel = r\<rparr>)))"
  using assms
  by (simp add: render_response_def get_prop_member keys_distinct grafana_child_eq)

lemma render_response_total:
  assumes t: "truthy (Some resp)" and tc: "time_converts resp" and g: "guard_converts resp"
  shows "\<exists>ms n r. milliseconds rt (member resp (js_str ''execution_time'')) = Inr ms \<and>
     data_points rt (Some resp) = Inr n \<and> raw_data_child rt (Some resp) = Inr r \<and>
     render_response rt (Some resp) =
       Inr \<lparr>answer_text = member resp (js_str ''natural_language_response''),
          promql_text = member resp (js_str ''promql_query''),
          execution_time_badge = ms,
          data_points_badge = n,
          grafana_link =
            (if truthy (member resp (js_str ''grafana_url''))
             then Element (member resp (js_str ''grafana_url''))
             else Value (member resp (js_str ''grafana_url''))),
          raw_data_panel = r\<rparr>"
proof -
  obtain ms where ms: "milliseconds rt (member resp (js_str ''execution_time'')) = Inr ms"
    using milliseconds_converts tc unfolding time_converts_def by blast
  obtain n where n: "data_points rt (Some resp) = Inr n"
    using data_points_total [OF t] by blast
  obtain r where r: "raw_data_child rt (Some resp) = Inr r"
    using raw_data_child_total [OF t g] by blast
  have "render_response rt (Some resp) =
       Inr \<lparr>answer_text = member resp (js_str ''natural_language_response''),
          promql_text = member resp (js_str ''promql_query''),
          execution_time_badge = ms,
          data_points_badge = n,
          grafana_link =
            (if truthy (member resp (js_str ''grafana_url''))
             then Element (member resp (js_str ''grafana_url''))
             else Value (member resp (js_str ''grafana_url''))),
          raw_data_panel = r\<rparr>"
    by (simp add: render_response_eq [OF t] ms n r)
  with ms n r show ?thesis by blast
qed

lemma render_falsy:
  "\<not> truthy (Some (response s)) \<Longrightarrow>
   render rt s = Inr (page_of s (Value (Some (response s))))"
  by (simp add: render_def)

lemma render_truthy:
  "truthy (Some (response s)) \<Longrightarrow>
   render rt s =
     and_then (render_response rt (Some (response s))) (\<lambda>d. Inr (page_of s (Element d)))"
  by (cases "render_response rt (Some (response s))") (simp_all add: render_def)

lemma render_page: "render rt s = Inr p \<Longrightarrow> \<exists>panel. p = page_of s panel"
proof (cases "truthy (Some (response s))")
  case False
  assume "render rt s = Inr p"
  then show ?thesis using False by (auto simp: render_falsy)
next
  case True
  assume r: "render rt s = Inr p"
  show ?thesis
  proof (cases "render_response rt (Some (response s))")
    case (Inl err)
    then show ?thesis using r True by (simp add: render_truthy)
  next
    case (Inr d)
    then show ?thesis using r True by (auto simp: render_truthy)
  qed
qed

subsection \<open>The outcome of a submission\<close>

lemma handleSubmit_unfold:
  assumes "trim (query s) \<noteq> []"
  shows "handleSubmit rt env net s =
     (case try_block rt env net (s\<lparr>loading := True, error := None, response := JNull\<rparr>) of
           (s2, effs, None) \<Rightarrow> (s2\<lparr>loading := False\<rparr>, PreventDefault # effs)
         | (s2, effs, Some err) \<Rightarrow>
             (case catch_block err s2 of
                (s3, effs') \<Rightarrow> (s3\<lparr>loading := False\<rparr>, PreventDefault # effs @ effs')))"
  using assms by (simp add: handleSubmit_def)

text \<open>The four ways through the \<open>try\<close> block.\<close>

lemma try_block_success:
  assumes "delivered net (query_request env (query s)) = Some doc" and "doc \<noteq> JNull"
    and "milliseconds rt (member doc (js_str ''execution_time'')) = Inr ms"
  shows "try_block rt env net s =
     (s\<lparr>response := doc\<rparr>,
      [Fetch (query_request env (query s)),
       Toast \<lparr>title = js_str ''Query successful!'',
              description = js_str ''Executed in '' @ ms,
              variant = None\<rparr>],
      None)"
  using assms
  by (auto simp: try_block_def submit_request_eq delivered_def get_prop_doc keys_distinct Let_def
      split: promise_result.splits if_splits)

lemma try_block_stored:
  assumes "delivered net (query_request env (query s)) = Some doc" and "doc \<noteq> JNull"
    and "milliseconds rt (member doc (js_str ''execution_time'')) = Inl err"
  shows "try_block rt env net s =
     (s\<lparr>response := doc\<rparr>, [Fetch (query_request env (query s))], Some err)"
  using assms
  by (auto simp: try_block_def submit_request_eq delivered_def get_prop_doc keys_distinct Let_def
      split: promise_result.splits if_splits)

lemma try_block_null:
  assumes "delivered net (query_request env (query s)) = Some JNull"
  shows "\<exists>err. try_block rt env net s =
     (s\<lparr>response := JNull\<rparr>, [Fetch (query_request env (query s))], Some err)"
  using assms
  by (auto simp: try_block_def submit_request_eq delivered_def Let_def
      split: promise_result.splits if_splits)

lemma try_block_failure:
  assumes "delivered net (query_request env (query s)) = None"
  shows "\<exists>err. try_block rt env net s =
     (s, [Fetch (query_request env (query s))], Some err)"
  using assms
  by (auto simp: try_block_def submit_request_eq delivered_def Let_def
      split: promise_result.splits if_splits sum.splits)

lemma catch_block_error:
  "catch_block (ThrownError m) s =
     (s\<lparr>error := Some m\<rparr>,
      [Toast \<lparr>title = js_str ''Query failed'', description = m,
              variant = Some (js_str ''destructive'')\<rparr>])"
  by (simp add: catch_block_def)

lemma handleSubmit_success:
  assumes q: "trim (query s) \<noteq> []"
    and d: "delivered net (query_request env (query s)) = Some doc" and n: "doc \<noteq> JNull"
    and m: "milliseconds rt (member doc (js_str ''execution_time'')) = Inr ms"
  shows "handleSubmit rt env net s =
     (s\<lparr>loading := False, error := None, response := doc\<rparr>,
      [PreventDefault, Fetch (query_request env (query s)),
       Toast \<lparr>title = js_str ''Query successful!'',
              description = js_str ''Executed in '' @ ms,
              variant = None\<rparr>])"
proof -
  have "delivered net (query_request env
      (query (s\<lparr>loading := True, error := None, response := JNull\<rparr>))) = Some doc"
    using d by simp
  from try_block_success [OF this n m]
  show ?thesis by (simp add: handleSubmit_unfold [OF q])
qed

lemma handleSubmit_stored:
  assumes q: "trim (query s) \<noteq> []"
    and d: "delivered net (query_request env (query s)) = Some doc" and n: "doc \<noteq> JNull"
    and c: "\<not> time_converts doc"
  shows "handleSubmit rt env net s =
     (s\<lparr>loading := False, error := Some (not_primitive_message rt), response := doc\<rparr>,
      [PreventDefault, Fetch (query_request env (query s)),
       Toast \<lparr>title = js_str ''Query failed'', description = not_primitive_message rt,
              variant = Some (js_str ''destructive'')\<rparr>])"
proof -
  have d1: "delivered net (query_request env
      (query (s\<lparr>loading := True, error := None, response := JNull\<rparr>))) = Some doc"
    using d by simp
  have m: "milliseconds rt (member doc (js_str ''execution_time'')) =
      Inl (ThrownError (not_primitive_message rt))"
    using c by (simp add: time_converts_def milliseconds_throws)
  from try_block_stored [OF d1 n m]
  show ?thesis by (simp add: handleSubmit_unfold [OF q] catch_block_error)
qed

lemma handleSubmit_failure:
  assumes q: "trim (query s) \<noteq> []"
    and d: "delivered net (query_request env (query s)) = None \<or>
            delivered net (query_request env (query s)) = Some JNull"
  shows "\<exists>m. handleSubmit rt env net s =
     (s\<lparr>loading := False, error := Some m, response := JNull\<rparr>,
      [PreventDefault, Fetch (query_request env (query s)),
       Toast \<lparr>title = js_str ''Query failed'', description = m,
              variant = Some (js_str ''destructive'')\<rparr>])"
proof -
  let ?s1 = "s\<lparr>loading := True, error := None, response := JNull\<rparr>"
  have d1: "delivered net (query_request env (query ?s1)) = None \<or>
            delivered net (query_request env (query ?s1)) = Some JNull"
    using d by simp
  have "\<exists>err. try_block rt env net ?s1 = (?s1, [Fetch (query_request env (query s))], Some err)"
  proof (rule disjE [OF d1])
    assume "delivered net (query_request env (query ?s1)) = None"
    from try_block_failure [OF this] show ?thesis by simp
  next
    assume "delivered net (query_request env (query ?s1)) = Some JNull"
    from try_block_null [OF this] show ?thesis by simp
  qed
  then obtain err where t: "try_block rt env net ?s1 = (?s1, [Fetch (query_request env (query s))], Some err)"
    by blast
  show ?thesis
    by (simp add: handleSubmit_unfold [OF q] t catch_block_def Let_def)
qed

lemma handleSubmit_delivered:
  assumes q: "trim (query s) \<noteq> []"
    and d: "delivered net (query_request env (query s)) = Some doc"
  shows "response (fst (handleSubmit rt env net s)) = doc
    \<and> loading (fst (handleSubmit rt env net s)) = False
    \<and> query (fst (handleSubmit rt env net s)) = query s
    \<and> fetches (snd (handleSubmit rt env net s)) = [query_request env (query s)]"
proof (cases "doc = JNull")
  case True
  then obtain m where "handleSubmit rt env net s =
     (s\<lparr>loading := False, error := Some m, response := JNull\<rparr>,
      [PreventDefault, Fetch (query_request env (query s)),
       Toast \<lparr>title = js_str ''Query failed'', description = m,
              variant = Some (js_str ''destructive'')\<rparr>])"
    using handleSubmit_failure [OF q] d by blast
  then show ?thesis using True by simp
next
  case False
  show ?thesis
  proof (cases "time_converts doc")
    case True
    then obtain ms where "milliseconds rt (member doc (js_str ''execution_time'')) = Inr ms"
      using milliseconds_converts unfolding time_converts_def by blast
    from handleSubmit_success [OF q d False this] show ?thesis by simp
  next
    case c: False
    from handleSubmit_stored [OF q d False c] show ?thesis by simp
  qed
qed

lemma handleSubmit_not_delivered:
  assumes q: "trim (query s) \<noteq> []"
    and d: "delivered net (query_request env (query s)) = None"
  shows "response (fst (handleSubmit rt env net s)) = JNull
    \<and> loading (fst (handleSubmit rt env net s)) = False
    \<and> query (fst (handleSubmit rt env net s)) = query s
    \<and> (\<exists>m. error (fst (handleSubmit rt env net s)) = Some m)
    \<and> fetches (snd (handleSubmit rt env net s)) = [query_request env (query s)]"
proof -
  obtain m where "handleSubmit rt env net s =
     (s\<lparr>loading := False, error := Some m, response := JNull\<rparr>,
      [PreventDefault, Fetch (query_request env (query s)),
       Toast \<lparr>title = js_str ''Query failed'', description = m,
              variant = Some (js_str ''destructive'')\<rparr>])"
    using handleSubmit_failure [OF q] d by blast
  then show ?thesis by simp
qed

lemma handleSubmit_loading:
  "loading s = False \<Longrightarrow> loading (fst (handleSubmit rt env net s)) = False"
proof (cases "trim (query s) = []")
  case True
  assume "loading s = False"
  then show ?thesis using True by (simp add: handleSubmit_def)
next
  case False
  show ?thesis
  proof (cases "delivered net (query_request env (query s))")
    case None
    from handleSubmit_not_delivered [OF False None] show ?thesis by simp
  next
    case (Some doc)
    from handleSubmit_delivered [OF False Some] show ?thesis by simp
  qed
qed

lemma handleSubmit_settled:
  assumes st: "settled s" and ty: "typed_network net"
  shows "settled (fst (handleSubmit rt env net s))"
proof (cases "trim (query s) = []")
  case True
  then show ?thesis using st by (simp add: handleSubmit_def)
next
  case q: False
  show ?thesis
  proof (cases "delivered net (query_request env (query s))")
    case None
    from handleSubmit_not_delivered [OF q None] show ?thesis
      by (simp add: settled_def)
  next
    case (Some doc)
    then have tc: "time_converts doc"
      using ty by (simp add: typed_network_def)
    show ?thesis
    proof (cases "doc = JNull")
      case True
      from handleSubmit_delivered [OF q Some] show ?thesis
        using True by (simp add: settled_def)
    next
      case False
      obtain ms where "milliseconds rt (member doc (js_str ''execution_time'')) = Inr ms"
        using milliseconds_converts tc unfolding time_converts_def by blast
      from handleSubmit_success [OF q Some False this] show ?thesis
        by (simp add: settled_def)
    qed
  qed
qed

lemma step_settled: "typed_event ev \<Longrightarrow> settled s \<Longrightarrow> settled (step rt env ev s)"
proof (cases ev)
  case (Change v)
  assume "settled s"
  then show ?thesis using Change by (simp add: settled_def)
next
  case (ExampleClick i)
  assume "settled s"
  then show ?thesis using ExampleClick by (simp add: settled_def handleExampleClick_def)
next
  case (Submit net)
  assume "typed_event ev" and "settled s"
  then show ?thesis using Submit by (simp add: handleSubmit_settled)
qed

lemma run_settled: "list_all typed_event evs \<Longrightarrow> settled s \<Longrightarrow> settled (run rt env evs s)"
  by (induction evs arbitrary: s) (simp_all add: step_settled)

lemma step_loading: "loading s = False \<Longrightarrow> loading (step rt env ev s) = False"
  by (cases ev) (simp_all add: handleExampleClick_def handleSubmit_loading)

lemma run_loading: "loading s = False \<Longrightarrow> loading (run rt env evs s) = False"
  by (induction evs arbitrary: s) (simp_all add: step_loading)

lemma initial_settled: "settled initial_state"
  by (simp add: settled_def initial_state_def)

lemma trim_asking: "trim (query asking_state) \<noteq> []"
  by (simp add: asking_state_def trim_def js_str_def is_white_space_def)

lemma trim_blank: "trim (query blank_state) = []"
  by (simp add: blank_state_def trim_def js_str_def is_white_space_def)

lemma delivered_replies:
  "delivered (replies code doc) req = (if 200 \<le> code \<and> code \<le> 299 then Some doc else None)"
  by (simp add: delivered_def replies_def response_ok_def)

lemma delivered_example: "delivered (replies 200 doc) req = Some doc"
  by (simp add: delivered_replies)

lemma delivered_down: "delivered network_down req = None"
  by (simp add: delivered_def network_down_def)

lemma typed_down: "typed_network network_down"
  by (simp add: typed_network_def delivered_down)

lemma typed_replies: "time_converts doc \<Longrightarrow> typed_network (replies code doc)"
  by (simp add: typed_network_def delivered_replies)

lemma example_time_converts: "time_converts (JObject example_answer)"
  by (simp add: time_converts_def example_answer_def js_str_def)

lemma odd_time_converts: "\<not> time_converts odd_time"
  by (simp add: time_converts_def odd_time_def js_str_def)

lemma render_blank: "render example_runtime blank_state = Inr (page_of blank_state (Value (Some JNull)))"
  by (simp add: render_falsy blank_state_def initial_state_def)

lemma render_null: "response s = JNull \<Longrightarrow> render rt s = Inr (page_of s (Value (Some JNull)))"
  using render_falsy [of s rt] by simp

lemma not_ok_not_delivered:
  assumes "net req = Fulfilled res" and "\<not> response_ok res"
  shows "delivered net req = None"
  using assms by (simp add: delivered_def)

lemma handleSubmit_error_detail:
  assumes q: "trim (query s) \<noteq> []"
    and f: "net (query_request env (query s)) = Fulfilled res"
    and n: "\<not> response_ok res"
    and j: "json res = Fulfilled (JObject kvs)"
    and m: "to_string rt (js_or (map_of kvs (js_str ''detail''))
              (Some (JString (js_str ''Query failed'')))) = Inr msg"
  shows "fst (handleSubmit rt env net s) =
     s\<lparr>loading := False, error := Some msg, response := JNull\<rparr>"
proof -
  let ?s1 = "s\<lparr>loading := True, error := None, response := JNull\<rparr>"
  have "try_block rt env net ?s1 =
     (?s1, [Fetch (query_request env (query s))], Some (ThrownError msg))"
    using f n j m by (simp add: try_block_def submit_request_eq)
  then show ?thesis
    by (simp add: handleSubmit_unfold [OF q] catch_block_error)
qed

lemma replies_eq: "replies code doc req = Fulfilled \<lparr>status = code, json = Fulfilled doc\<rparr>"
  by (simp add: replies_def)

lemma not_ok_404: "\<not> response_ok \<lparr>status = 404, json = Fulfilled doc\<rparr>"
  by (simp add: response_ok_def)

lemma not_ok_422: "\<not> response_ok \<lparr>status = 422, json = Fulfilled doc\<rparr>"
  by (simp add: response_ok_def)

lemma length_read_array:
  "opt_prop rt (Some (JArray xs)) (js_str ''length'') =
     Inr (Some (JNumber (Finite (of_nat (length xs)))))"
  by (simp add: opt_prop_def)

lemma length_read_string:
  "opt_prop rt (Some (JString str)) (js_str ''length'') =
     Inr (Some (JNumber (Finite (of_nat (length str)))))"
  by (simp add: opt_prop_def)

lemma length_read_object:
  "opt_prop rt (Some (JObject kvs)) (js_str ''length'') = Inr (map_of kvs (js_str ''length''))"
  by (simp add: opt_prop_def)

lemma length_read_other:
  "opt_prop rt (Some (JBool b)) (js_str ''length'') = Inr None"
  "opt_prop rt (Some (JNumber x)) (js_str ''length'') = Inr None"
  by (simp_all add: opt_prop_def)

lemma length_read_absent:
  "v = None \<or> v = Some JNull \<Longrightarrow> opt_prop rt v (js_str ''length'') = Inr None"
  by (auto simp: opt_prop_def)

lemma raw_data_child_element:
  assumes t: "truthy (Some resp)"
    and e: "raw_data_child rt (Some resp) = Inr (Element shown)"
  shows "shown = member resp (js_str ''raw_data'') \<and> (\<exists>r. raw_result resp = Some r \<and> non_empty r)"
proof -
  have tr: "truthy (raw_result resp)"
    using e by (auto simp: raw_data_child_eq [OF t] split: if_splits)
  then obtain r where r: "raw_result resp = Some r"
    by (cases "raw_result resp") auto
  obtain len where len: "get_prop rt (Some r) (js_str ''length'') = Inr len"
    using get_prop_truthy tr r by metis
  obtain n where n: "to_number rt len = Inr n"
    using e tr r len by (cases "to_number rt len") (auto simp: raw_data_child_eq [OF t])
  have pos: "number_gt_zero n" and sh: "shown = member resp (js_str ''raw_data'')"
    using e tr r len n by (auto simp: raw_data_child_eq [OF t] split: if_splits)
  have "non_empty r"
    using tr r len n pos by (cases r) auto
  with r sh show ?thesis by simp
qed

lemma raw_data_child_array:
  assumes t: "truthy (Some resp)" and r: "raw_result resp = Some (JArray xs)"
  shows "raw_data_child rt (Some resp) =
           Inr (if xs = [] then Value (Some (JBool False))
                else Element (member resp (js_str ''raw_data'')))"
  using r by (simp add: raw_data_child_eq [OF t])

lemma raw_data_child_string:
  assumes t: "truthy (Some resp)" and r: "raw_result resp = Some (JString str)"
  shows "raw_data_child rt (Some resp) =
           Inr (if str = [] then Value (Some (JString []))
                else Element (member resp (js_str ''raw_data'')))"
  using r by (simp add: raw_data_child_eq [OF t])

lemma example_raw_result:
  "raw_result (JObject example_answer) =
     Some (JArray [JObject [(js_str ''value'', JString (js_str ''45.2''))]])"
  by (simp add: raw_result_def example_answer_def js_str_def)

lemma odd_length_guard: "\<not> guard_converts odd_length"
  by (simp add: guard_converts_def raw_result_def odd_length_def js_str_def)

lemma fields_members:
  assumes "\<forall>k \<in> set QueryResponse_fields. member a k = member b k"
  shows "member a (js_str ''natural_language_response'') = member b (js_str ''natural_language_response'')"
    and "member a (js_str ''promql_query'') = member b (js_str ''promql_query'')"
    and "member a (js_str ''raw_data'') = member b (js_str ''raw_data'')"
    and "member a (js_str ''grafana_url'') = member b (js_str ''grafana_url'')"
    and "member a (js_str ''execution_time'') = member b (js_str ''execution_time'')"
  using assms by (simp_all add: QueryResponse_fields_def)

lemma render_response_fields:
  assumes ta: "truthy (Some a)" and tb: "truthy (Some b)"
    and eq: "\<forall>k \<in> set QueryResponse_fields. member a k = member b k"
  shows "render_response rt (Some a) = render_response rt (Some b)"
proof -
  note m = fields_members [OF eq]
  have rr: "raw_result a = raw_result b"
    by (simp add: raw_result_def m)
  have dp: "data_points rt (Some a) = data_points rt (Some b)"
    by (simp add: data_points_eq [OF ta] data_points_eq [OF tb] rr)
  have rc: "raw_data_child rt (Some a) = raw_data_child rt (Some b)"
    by (simp add: raw_data_child_eq [OF ta] raw_data_child_eq [OF tb] rr m cong: if_cong)
  show ?thesis
    by (simp add: render_response_eq [OF ta] render_response_eq [OF tb] dp rc m)
qed

lemma render_response_typed:
  assumes t: "map_of kvs (js_str ''execution_time'') = Some (JNumber x)"
    and r: "raw_result (JObject kvs) = Some (JArray xs)"
  shows "render_response rt (Some (JObject kvs)) =
     Inr \<lparr>answer_text = map_of kvs (js_str ''natural_language_response''),
          promql_text = map_of kvs (js_str ''promql_query''),
          execution_time_badge =
            number_toFixed0 rt (number_times rt x (Finite 1000)) @ js_str ''ms'',
          data_points_badge = Some (JNumber (Finite (of_nat (length xs)))),
          grafana_link =
            (if truthy (map_of kvs (js_str ''grafana_url''))
             then Element (map_of kvs (js_str ''grafana_url''))
             else Value (map_of kvs (js_str ''grafana_url''))),
          raw_data_panel =
            (if xs = [] then Value (Some (JBool False))
             else Element (map_of kvs (js_str ''raw_data'')))\<rparr>"
proof -
  have tr: "truthy (Some (JObject kvs))" by simp
  have dp: "data_points rt (Some (JObject kvs)) = Inr (Some (JNumber (Finite (of_nat (length xs)))))"
    by (cases xs) (simp_all add: data_points_eq [OF tr] r length_read_array js_or_def)
  have rc: "raw_data_child rt (Some (JObject kvs)) =
      Inr (if xs = [] then Value (Some (JBool False))
           else Element (map_of kvs (js_str ''raw_data'')))"
    using raw_data_child_array [OF tr r, of rt] by simp
  show ?thesis
    by (simp add: render_response_eq [OF tr] t milliseconds_number dp rc)
qed

lemma render_object:
  assumes r: "response s = JObject kvs"
    and tc: "time_converts (JObject kvs)" and g: "guard_converts (JObject kvs)"
  shows "\<exists>ms n c. render rt s = Inr (page_of s (Element
       \<lparr>answer_text = map_of kvs (js_str ''natural_language_response''),
        promql_text = map_of kvs (js_str ''promql_query''),
        execution_time_badge = ms,
        data_points_badge = n,
        grafana_link =
          (if truthy (map_of kvs (js_str ''grafana_url''))
           then Element (map_of kvs (js_str ''grafana_url''))
           else Value (map_of kvs (js_str ''grafana_url''))),
        raw_data_panel = c\<rparr>))"
proof -
  have t: "truthy (Some (JObject kvs))" by simp
  from render_response_total [OF t tc g, of rt]
  obtain ms n c where "render_response rt (Some (JObject kvs)) =
       Inr \<lparr>answer_text = map_of kvs (js_str ''natural_language_response''),
        promql_text = map_of kvs (js_str ''promql_query''),
        execution_time_badge = ms,
        data_points_badge = n,
        grafana_link =
          (if truthy (map_of kvs (js_str ''grafana_url''))
           then Element (map_of kvs (js_str ''grafana_url''))
           else Value (map_of kvs (js_str ''grafana_url''))),
        raw_data_panel = c\<rparr>"
    by auto
  then have "render rt s = Inr (page_of s (Element
       \<lparr>answer_text = map_of kvs (js_str ''natural_language_response''),
        promql_text = map_of kvs (js_str ''promql_query''),
        execution_time_badge = ms,
        data_points_badge = n,
        grafana_link =
          (if truthy (map_of kvs (js_str ''grafana_url''))
           then Element (map_of kvs (js_str ''grafana_url''))
           else Value (map_of kvs (js_str ''grafana_url''))),
        raw_data_panel = c\<rparr>))"
    using r by (simp add: render_truthy)
  then show ?thesis by blast
qed

lemma example_guard_converts: "guard_converts (JObject example_answer)"
  by (simp add: guard_converts_def example_raw_result)

lemma linked_time_converts: "time_converts (JObject example_answer_linked)"
  by (simp add: time_converts_def example_answer_linked_def example_answer_def js_str_def)

lemma linked_guard_converts: "guard_converts (JObject example_answer_linked)"
  by (simp add: guard_converts_def raw_result_def example_answer_linked_def example_answer_def
      js_str_def)

subsection \<open>Claims about the page component\<close>

text \<open>
  C3 (as amended). For every reply with a non-success status to a submitted question, the
  handler sets the error to a message, leaves the response null, so that no answer is
  displayed, and resets loading; the page displays the message in its error alert unless
  the message is the empty string. When the body is a JSON object whose \<open>detail\<close> is a
  non-empty string, the error displayed is that string verbatim; when the body is a JSON
  object without a \<open>detail\<close> field, it is the fixed text \<open>Query failed\<close>.
\<close>

theorem handleSubmit_backend_error:
  assumes q: "trim (query s) \<noteq> []"
    and f: "net (query_request env (query s)) = Fulfilled res"
    and n: "\<not> response_ok res"
  shows "response (fst (handleSubmit rt env net s)) = JNull
    \<and> loading (fst (handleSubmit rt env net s)) = False
    \<and> (case error (fst (handleSubmit rt env net s)) of
          None \<Rightarrow> False
        | Some m \<Rightarrow>
            (case render rt (fst (handleSubmit rt env net s)) of
               Inl thrown \<Rightarrow> False
             | Inr p \<Rightarrow>
                 response_panel p = Value (Some JNull) \<and>
                 error_alert p = (if m = [] then Value (Some (JString [])) else Element m)))
    \<and> (\<forall>kvs d. json res = Fulfilled (JObject kvs) \<and>
                map_of kvs (js_str ''detail'') = Some (JString d) \<and> d \<noteq> [] \<longrightarrow>
                error (fst (handleSubmit rt env net s)) = Some d \<and>
                (case render rt (fst (handleSubmit rt env net s)) of
                   Inl thrown \<Rightarrow> False
                 | Inr p \<Rightarrow> error_alert p = Element d))
    \<and> (\<forall>kvs. json res = Fulfilled (JObject kvs) \<and> map_of kvs (js_str ''detail'') = None \<longrightarrow>
                error (fst (handleSubmit rt env net s)) = Some (js_str ''Query failed'') \<and>
                (case render rt (fst (handleSubmit rt env net s)) of
                   Inl thrown \<Rightarrow> False
                 | Inr p \<Rightarrow> error_alert p = Element (js_str ''Query failed'')))"
proof -
  let ?s' = "fst (handleSubmit rt env net s)"
  have nd: "delivered net (query_request env (query s)) = None"
    using f n by (rule not_ok_not_delivered)
  from handleSubmit_not_delivered [OF q nd, of rt]
  obtain m where r: "response ?s' = JNull" and l: "loading ?s' = False" and e: "error ?s' = Some m"
    by blast
  have shown: "case error ?s' of
          None \<Rightarrow> False
        | Some m \<Rightarrow>
            (case render rt ?s' of
               Inl thrown \<Rightarrow> False
             | Inr p \<Rightarrow>
                 response_panel p = Value (Some JNull) \<and>
                 error_alert p = (if m = [] then Value (Some (JString [])) else Element m))"
    by (simp add: e render_null [OF r] page_of_def)
  have verbatim: "\<forall>kvs d. json res = Fulfilled (JObject kvs) \<and>
                map_of kvs (js_str ''detail'') = Some (JString d) \<and> d \<noteq> [] \<longrightarrow>
                error ?s' = Some d \<and>
                (case render rt ?s' of
                   Inl thrown \<Rightarrow> False
                 | Inr p \<Rightarrow> error_alert p = Element d)"
  proof (intro allI impI)
    fix kvs d
    assume a: "json res = Fulfilled (JObject kvs) \<and>
                map_of kvs (js_str ''detail'') = Some (JString d) \<and> d \<noteq> []"
    then have j: "json res = Fulfilled (JObject kvs)" by simp
    have m: "to_string rt (js_or (map_of kvs (js_str ''detail''))
              (Some (JString (js_str ''Query failed'')))) = Inr d"
      using a by (simp add: js_or_def)
    have ed: "error ?s' = Some d"
      by (simp add: handleSubmit_error_detail [where net = net, OF q f n j m])
    have "case render rt ?s' of
                   Inl thrown \<Rightarrow> False
                 | Inr p \<Rightarrow> error_alert p = Element d"
      using a by (simp add: render_null [OF r] page_of_def ed)
    with ed show "error ?s' = Some d \<and>
                (case render rt ?s' of
                   Inl thrown \<Rightarrow> False
                 | Inr p \<Rightarrow> error_alert p = Element d)"
      by (rule conjI)
  qed
  have fallback: "\<forall>kvs. json res = Fulfilled (JObject kvs) \<and> map_of kvs (js_str ''detail'') = None \<longrightarrow>
                error ?s' = Some (js_str ''Query failed'') \<and>
                (case render rt ?s' of
                   Inl thrown \<Rightarrow> False
                 | Inr p \<Rightarrow> error_alert p = Element (js_str ''Query failed''))"
  proof (intro allI impI)
    fix kvs
    assume a: "json res = Fulfilled (JObject kvs) \<and> map_of kvs (js_str ''detail'') = None"
    then have j: "json res = Fulfilled (JObject kvs)" by simp
    have m: "to_string rt (js_or (map_of kvs (js_str ''detail''))
              (Some (JString (js_str ''Query failed'')))) = Inr (js_str ''Query failed'')"
      using a by (simp add: js_or_def)
    have ed: "error ?s' = Some (js_str ''Query failed'')"
      by (simp add: handleSubmit_error_detail [where net = net, OF q f n j m])
    have ne: "js_str ''Query failed'' \<noteq> []"
      by (simp add: js_str_def)
    have "case render rt ?s' of
                   Inl thrown \<Rightarrow> False
                 | Inr p \<Rightarrow> error_alert p = Element (js_str ''Query failed'')"
      using ne by (simp add: render_null [OF r] page_of_def ed)
    with ed show "error ?s' = Some (js_str ''Query failed'') \<and>
                (case render rt ?s' of
                   Inl thrown \<Rightarrow> False
                 | Inr p \<Rightarrow> error_alert p = Element (js_str ''Query failed''))"
      by (rule conjI)
  qed
  from r l shown verbatim fallback show ?thesis by (intro conjI)
qed

theorem handleSubmit_backend_error_witness:
  "error (fst (handleSubmit example_runtime None (replies 404 not_found) asking_state)) =
     Some (js_str ''Not Found'')
   \<and> response (fst (handleSubmit example_runtime None (replies 404 not_found) asking_state)) = JNull
   \<and> error (fst (handleSubmit example_runtime None (replies 404 (JObject [])) asking_state)) =
     Some (js_str ''Query failed'')"
proof -
  note a = handleSubmit_backend_error
    [where s = asking_state and rt = example_runtime and env = None
       and net = "replies 404 not_found"
       and res = "\<lparr>status = 404, json = Fulfilled not_found\<rparr>",
     OF trim_asking replies_eq not_ok_404]
  note b = handleSubmit_backend_error
    [where s = asking_state and rt = example_runtime and env = None
       and net = "replies 404 (JObject [])"
       and res = "\<lparr>status = 404, json = Fulfilled (JObject [])\<rparr>",
     OF trim_asking replies_eq not_ok_404]
  have a1: "response (fst (handleSubmit example_runtime None (replies 404 not_found) asking_state)) = JNull"
    using a [THEN conjunct1] .
  have a2: "error (fst (handleSubmit example_runtime None (replies 404 not_found) asking_state)) =
     Some (js_str ''Not Found'')"
    using a [THEN conjunct2, THEN conjunct2, THEN conjunct2, THEN conjunct1, rule_format,
        of "[(js_str ''detail'', JString (js_str ''Not Found''))]" "js_str ''Not Found''",
        THEN conjunct1]
    by (simp add: not_found_def js_str_def)
  have b1: "error (fst (handleSubmit example_runtime None (replies 404 (JObject [])) asking_state)) =
     Some (js_str ''Query failed'')"
    using b [THEN conjunct2, THEN conjunct2, THEN conjunct2, THEN conjunct2, rule_format, of "[]",
        THEN conjunct1]
    by simp
  from a1 a2 b1 show ?thesis by blast
qed

text \<open>
  The claim as first stated, that the detail of every non-success reply is shown verbatim,
  fails on the body FastAPI sends with status 422: its \<open>detail\<close> is a list of objects,
  and \<open>new Error(detail)\<close> turns it into the text \<open>[object Object]\<close>.
\<close>

theorem backend_error_detail_counterexample:
  "\<not> response_ok \<lparr>status = 422, json = Fulfilled validation_error\<rparr>
   \<and> member validation_error (js_str ''detail'') =
       Some (JArray [JObject [(js_str ''loc'', JArray [JString (js_str ''body''), JString (js_str ''query'')]),
                              (js_str ''msg'', JString (js_str ''field required'')),
                              (js_str ''type'', JString (js_str ''value_error.missing''))]])
   \<and> error (fst (handleSubmit example_runtime None (replies 422 validation_error) asking_state)) =
       Some (js_str ''[object Object]'')"
proof -
  have m: "member validation_error (js_str ''detail'') =
       Some (JArray [JObject [(js_str ''loc'', JArray [JString (js_str ''body''), JString (js_str ''query'')]),
                              (js_str ''msg'', JString (js_str ''field required'')),
                              (js_str ''type'', JString (js_str ''value_error.missing''))]])"
    by (simp add: validation_error_def)
  have j: "json \<lparr>status = 422, json = Fulfilled validation_error\<rparr> =
       Fulfilled (JObject [(js_str ''detail'',
         JArray [JObject [(js_str ''loc'', JArray [JString (js_str ''body''), JString (js_str ''query'')]),
                          (js_str ''msg'', JString (js_str ''field required'')),
                          (js_str ''type'', JString (js_str ''value_error.missing''))]])])"
    by (simp add: validation_error_def)
  have t: "to_string example_runtime
       (js_or (map_of [(js_str ''detail'',
         JArray [JObject [(js_str ''loc'', JArray [JString (js_str ''body''), JString (js_str ''query'')]),
                          (js_str ''msg'', JString (js_str ''field required'')),
                          (js_str ''type'', JString (js_str ''value_error.missing''))]])]
           (js_str ''detail''))
         (Some (JString (js_str ''Query failed'')))) = Inr (js_str ''[object Object]'')"
    by (simp add: js_or_def js_str_def)
  have e: "error (fst (handleSubmit example_runtime None (replies 422 validation_error) asking_state)) =
       Some (js_str ''[object Object]'')"
    by (simp add: handleSubmit_error_detail [where net = "replies 422 validation_error",
          OF trim_asking replies_eq not_ok_422 j t])
  from m e show ?thesis by (simp add: not_ok_422)
qed

text \<open>
  C4. When the question is empty after trimming whitespace, \<open>handleSubmit\<close> returns at its
  guard: the state (loading, error, response, query) is unchanged and no network request
  is issued; and whenever the component renders such a state, its submit button is
  disabled.
\<close>

theorem handleSubmit_blank_query:
  assumes "trim (query s) = []"
  shows "handleSubmit rt env net s = (s, [PreventDefault])
         \<and> fetches (snd (handleSubmit rt env net s)) = []
         \<and> (\<forall>p. render rt s = Inr p \<longrightarrow> submit_disabled p)"
proof -
  have h: "handleSubmit rt env net s = (s, [PreventDefault])"
    using assms by (simp add: handleSubmit_def)
  have r: "\<forall>p. render rt s = Inr p \<longrightarrow> submit_disabled p"
  proof (intro allI impI)
    fix p
    assume "render rt s = Inr p"
    then obtain panel where "p = page_of s panel"
      using render_page by blast
    then show "submit_disabled p"
      using assms by (simp add: page_of_def)
  qed
  from h r show ?thesis by simp
qed

theorem handleSubmit_blank_query_witness:
  "trim (query blank_state) = []
   \<and> handleSubmit example_runtime None network_down blank_state = (blank_state, [PreventDefault])
   \<and> fetches (snd (handleSubmit example_runtime None network_down blank_state)) = []
   \<and> submit_disabled (page_of blank_state (Value (Some JNull)))"
proof -
  note inst = handleSubmit_blank_query [OF trim_blank, of example_runtime None network_down]
  from inst [THEN conjunct2, THEN conjunct2, rule_format, OF render_blank] inst trim_blank
  show ?thesis by blast
qed

text \<open>
  C5 (as amended). A submitted question issues exactly one request: a POST to the
  \<open>/query\<close> endpoint of the backend, JSON content type, with the body
  \<open>{query: <the question>}\<close>. The document delivered in reply is stored whole, in one
  piece, as the response state, without any check of its shape. Of a response the page
  reads the five fields of the interface \<open>QueryResponse\<close> and nothing else: it shows the
  sentence, the structured query, the count and the panel of the raw data, the Grafana
  link, and a numeric execution time \<open>x\<close> as \<open>(x * 1000).toFixed(0)\<close> followed by
  \<open>ms\<close>, in the toast and in the badge.
\<close>

theorem handleSubmit_single_request:
  assumes q: "trim (query s) \<noteq> []"
  shows "fetches (snd (handleSubmit rt env net s)) =
           [\<lparr>url = (case env of
                      None \<Rightarrow> js_str ''http://localhost:8000''
                    | Some u \<Rightarrow> if u = [] then js_str ''http://localhost:8000'' else u)
                   @ js_str ''/query'',
             http_method = js_str ''POST'',
             headers = [(js_str ''Content-Type'', js_str ''application/json'')],
             body = JObject [(js_str ''query'', JString (query s))]\<rparr>]
    \<and> (\<forall>doc. delivered net (query_request env (query s)) = Some doc \<longrightarrow>
          response (fst (handleSubmit rt env net s)) = doc)
    \<and> (\<forall>doc x. delivered net (query_request env (query s)) = Some doc \<and>
          member doc (js_str ''execution_time'') = Some (JNumber x) \<longrightarrow>
          error (fst (handleSubmit rt env net s)) = None \<and>
          snd (handleSubmit rt env net s) =
            [PreventDefault, Fetch (query_request env (query s)),
             Toast \<lparr>title = js_str ''Query successful!'',
                    description = js_str ''Executed in '' @
                      number_toFixed0 rt (number_times rt x (Finite 1000)) @ js_str ''ms'',
                    variant = None\<rparr>])
    \<and> (\<forall>kvs x xs. map_of kvs (js_str ''execution_time'') = Some (JNumber x) \<and>
          raw_result (JObject kvs) = Some (JArray xs) \<longrightarrow>
          render_response rt (Some (JObject kvs)) =
            Inr \<lparr>answer_text = map_of kvs (js_str ''natural_language_response''),
                 promql_text = map_of kvs (js_str ''promql_query''),
                 execution_time_badge =
                   number_toFixed0 rt (number_times rt x (Finite 1000)) @ js_str ''ms'',
                 data_points_badge = Some (JNumber (Finite (of_nat (length xs)))),
                 grafana_link =
                   (if truthy (map_of kvs (js_str ''grafana_url''))
                    then Element (map_of kvs (js_str ''grafana_url''))
                    else Value (map_of kvs (js_str ''grafana_url''))),
                 raw_data_panel =
                   (if xs = [] then Value (Some (JBool False))
                    else Element (map_of kvs (js_str ''raw_data'')))\<rparr>)
    \<and> (\<forall>a b. truthy (Some a) \<and> truthy (Some b) \<and>
               (\<forall>k \<in> set QueryResponse_fields. member a k = member b k) \<longrightarrow>
               render_response rt (Some a) = render_response rt (Some b))"
proof -
  have f: "fetches (snd (handleSubmit rt env net s)) = [query_request env (query s)]"
  proof (cases "delivered net (query_request env (query s))")
    case None
    from handleSubmit_not_delivered [OF q None] show ?thesis by simp
  next
    case (Some doc)
    from handleSubmit_delivered [OF q Some] show ?thesis by simp
  qed
  then have one: "fetches (snd (handleSubmit rt env net s)) =
           [\<lparr>url = (case env of
                      None \<Rightarrow> js_str ''http://localhost:8000''
                    | Some u \<Rightarrow> if u = [] then js_str ''http://localhost:8000'' else u)
                   @ js_str ''/query'',
             http_method = js_str ''POST'',
             headers = [(js_str ''Content-Type'', js_str ''application/json'')],
             body = JObject [(js_str ''query'', JString (query s))]\<rparr>]"
    by (simp add: query_request_def)
  have whole: "\<forall>doc. delivered net (query_request env (query s)) = Some doc \<longrightarrow>
          response (fst (handleSubmit rt env net s)) = doc"
    using handleSubmit_delivered [OF q] by blast
  have toast: "\<forall>doc x. delivered net (query_request env (query s)) = Some doc \<and>
          member doc (js_str ''execution_time'') = Some (JNumber x) \<longrightarrow>
          error (fst (handleSubmit rt env net s)) = None \<and>
          snd (handleSubmit rt env net s) =
            [PreventDefault, Fetch (query_request env (query s)),
             Toast \<lparr>title = js_str ''Query successful!'',
                    description = js_str ''Executed in '' @
                      number_toFixed0 rt (number_times rt x (Finite 1000)) @ js_str ''ms'',
                    variant = None\<rparr>]"
  proof (intro allI impI)
    fix doc x
    assume a: "delivered net (query_request env (query s)) = Some doc \<and>
          member doc (js_str ''execution_time'') = Some (JNumber x)"
    then have d: "delivered net (query_request env (query s)) = Some doc"
      and t: "member doc (js_str ''execution_time'') = Some (JNumber x)"
      by simp_all
    have n: "doc \<noteq> JNull" using t by auto
    have ms: "milliseconds rt (member doc (js_str ''execution_time'')) =
        Inr (number_toFixed0 rt (number_times rt x (Finite 1000)) @ js_str ''ms'')"
      by (simp add: t milliseconds_number)
    from handleSubmit_success [OF q d n ms]
    show "error (fst (handleSubmit rt env net s)) = None \<and>
          snd (handleSubmit rt env net s) =
            [PreventDefault, Fetch (query_request env (query s)),
             Toast \<lparr>title = js_str ''Query successful!'',
                    description = js_str ''Executed in '' @
                      number_toFixed0 rt (number_times rt x (Finite 1000)) @ js_str ''ms'',
                    variant = None\<rparr>]"
      by simp
  qed
  have shown: "\<forall>kvs x xs. map_of kvs (js_str ''execution_time'') = Some (JNumber x) \<and>
          raw_result (JObject kvs) = Some (JArray xs) \<longrightarrow>
          render_response rt (Some (JObject kvs)) =
            Inr \<lparr>answer_text = map_of kvs (js_str ''natural_language_response''),
                 promql_text = map_of kvs (js_str ''promql_query''),
                 execution_time_badge =
                   number_toFixed0 rt (number_times rt x (Finite 1000)) @ js_str ''ms'',
                 data_points_badge = Some (JNumber (Finite (of_nat (length xs)))),
                 grafana_link =
                   (if truthy (map_of kvs (js_str ''grafana_url''))
                    then Element (map_of kvs (js_str ''grafana_url''))
                    else Value (map_of kvs (js_str ''grafana_url''))),
                 raw_data_panel =
                   (if xs = [] then Value (Some (JBool False))
                    else Element (map_of kvs (js_str ''raw_data'')))\<rparr>"
    using render_response_typed by blast
  have fields: "\<forall>a b. truthy (Some a) \<and> truthy (Some b) \<and>
               (\<forall>k \<in> set QueryResponse_fields. member a k = member b k) \<longrightarrow>
               render_response rt (Some a) = render_response rt (Some b)"
    using render_response_fields by blast
  from one whole toast shown fields show ?thesis by (intro conjI)
qed

theorem handleSubmit_single_request_witness:
  "fetches (snd (handleSubmit example_runtime None (replies 200 (JObject example_answer)) asking_state)) =
     [\<lparr>url = js_str ''http://localhost:8000/query'',
       http_method = js_str ''POST'',
       headers = [(js_str ''Content-Type'', js_str ''application/json'')],
       body = JObject [(js_str ''query'', JString (js_str ''What's the average CPU usage?''))]\<rparr>]"
  using handleSubmit_single_request
    [where s = asking_state and rt = example_runtime and env = None
       and net = "replies 200 (JObject example_answer)", OF trim_asking, THEN conjunct1]
  by (simp add: asking_state_def js_str_def)

text \<open>
  The claim as first stated, that the answer consumed is a record with the five fields,
  fails on a reply with a success status whose body is the number 7: the handler stores it
  as the response and sets no error.
\<close>

theorem answer_shape_counterexample:
  "\<not> is_QueryResponse (JNumber (Finite 7))
   \<and> response (fst (handleSubmit example_runtime None (replies 200 (JNumber (Finite 7))) asking_state)) =
       JNumber (Finite 7)
   \<and> error (fst (handleSubmit example_runtime None (replies 200 (JNumber (Finite 7))) asking_state)) =
       None"
proof -
  have n: "JNumber (Finite 7) \<noteq> JNull" by simp
  have ms: "milliseconds example_runtime (member (JNumber (Finite 7)) (js_str ''execution_time'')) =
      Inr (number_toFixed0 example_runtime (number_times example_runtime NaN (Finite 1000)) @ js_str ''ms'')"
    by (simp add: milliseconds_def)
  from handleSubmit_success [where net = "replies 200 (JNumber (Finite 7))",
      OF trim_asking delivered_example n ms]
  show ?thesis by simp
qed

text \<open>
  C6 (as amended). After a submission answered by a response object whose
  \<open>execution_time\<close> and whose \<open>raw_data.result.length\<close> have primitive values (as they
  have for a number and for an array result), no error is set and the component evaluates
  without throwing, with the answer and the query shown. When \<open>grafana_url\<close> is absent
  (or \<open>null\<close>), only the Grafana link is left out; when \<open>grafana_url\<close> is a non-empty
  string, the link is rendered with that address.
\<close>

theorem grafana_link_optional:
  assumes q: "trim (query s) \<noteq> []"
    and d: "delivered net (query_request env (query s)) = Some (JObject kvs)"
    and tc: "time_converts (JObject kvs)"
    and g: "guard_converts (JObject kvs)"
  shows "error (fst (handleSubmit rt env net s)) = None
    \<and> response (fst (handleSubmit rt env net s)) = JObject kvs
    \<and> (case render rt (fst (handleSubmit rt env net s)) of
          Inl thrown \<Rightarrow> False
        | Inr p \<Rightarrow>
            error_alert p = Value (Some JNull) \<and>
            (case response_panel p of
               Value v \<Rightarrow> False
             | Element shown \<Rightarrow>
                 answer_text shown = map_of kvs (js_str ''natural_language_response'') \<and>
                 promql_text shown = map_of kvs (js_str ''promql_query'') \<and>
                 (map_of kvs (js_str ''grafana_url'') = None \<or>
                  map_of kvs (js_str ''grafana_url'') = Some JNull \<longrightarrow>
                    grafana_link shown = Value (map_of kvs (js_str ''grafana_url''))) \<and>
                 (\<forall>u. map_of kvs (js_str ''grafana_url'') = Some (JString u) \<and> u \<noteq> [] \<longrightarrow>
                    grafana_link shown = Element (Some (JString u)))))"
proof -
  let ?s' = "fst (handleSubmit rt env net s)"
  have n: "JObject kvs \<noteq> JNull" by simp
  obtain ms0 where ms0: "milliseconds rt (member (JObject kvs) (js_str ''execution_time'')) = Inr ms0"
    using milliseconds_converts tc unfolding time_converts_def by blast
  from handleSubmit_success [OF q d n ms0]
  have s': "?s' = s\<lparr>loading := False, error := None, response := JObject kvs\<rparr>"
    by simp
  then have e: "error ?s' = None" and r: "response ?s' = JObject kvs"
    by simp_all
  from render_object [OF r tc g, of rt]
  obtain ms n c where p: "render rt ?s' = Inr (page_of ?s' (Element
       \<lparr>answer_text = map_of kvs (js_str ''natural_language_response''),
        promql_text = map_of kvs (js_str ''promql_query''),
        execution_time_badge = ms,
        data_points_badge = n,
        grafana_link =
          (if truthy (map_of kvs (js_str ''grafana_url''))
           then Element (map_of kvs (js_str ''grafana_url''))
           else Value (map_of kvs (js_str ''grafana_url''))),
        raw_data_panel = c\<rparr>))"
    by blast
  have shown: "case render rt ?s' of
          Inl thrown \<Rightarrow> False
        | Inr p \<Rightarrow>
            error_alert p = Value (Some JNull) \<and>
            (case response_panel p of
               Value v \<Rightarrow> False
             | Element shown \<Rightarrow>
                 answer_text shown = map_of kvs (js_str ''natural_language_response'') \<and>
                 promql_text shown = map_of kvs (js_str ''promql_query'') \<and>
                 (map_of kvs (js_str ''grafana_url'') = None \<or>
                  map_of kvs (js_str ''grafana_url'') = Some JNull \<longrightarrow>
                    grafana_link shown = Value (map_of kvs (js_str ''grafana_url''))) \<and>
                 (\<forall>u. map_of kvs (js_str ''grafana_url'') = Some (JString u) \<and> u \<noteq> [] \<longrightarrow>
                    grafana_link shown = Element (Some (JString u))))"
    unfolding p using e by (auto simp: page_of_def)
  from e r shown show ?thesis by (intro conjI)
qed

theorem grafana_link_optional_witness:
  "error (fst (handleSubmit example_runtime None (replies 200 (JObject example_answer)) asking_state)) = None
   \<and> response (fst (handleSubmit example_runtime None (replies 200 (JObject example_answer_linked)) asking_state))
       = JObject example_answer_linked
   \<and> grafana_child example_runtime (Some (JObject example_answer)) = Inr (Value JUndefined)
   \<and> grafana_child example_runtime (Some (JObject example_answer_linked)) =
       Inr (Element (Some (JString (js_str ''http://localhost:3000/explore''))))"
proof -
  note a = grafana_link_optional
    [where s = asking_state and rt = example_runtime and env = None
       and net = "replies 200 (JObject example_answer)" and kvs = example_answer,
     OF trim_asking delivered_example example_time_converts example_guard_converts]
  note b = grafana_link_optional
    [where s = asking_state and rt = example_runtime and env = None
       and net = "replies 200 (JObject example_answer_linked)" and kvs = example_answer_linked,
     OF trim_asking delivered_example linked_time_converts linked_guard_converts]
  have c: "grafana_child example_runtime (Some (JObject example_answer)) = Inr (Value JUndefined)"
    by (simp add: grafana_child_eq example_answer_def js_str_def)
  have d: "grafana_child example_runtime (Some (JObject example_answer_linked)) =
       Inr (Element (Some (JString (js_str ''http://localhost:3000/explore''))))"
    by (simp add: grafana_child_eq example_answer_linked_def js_str_def)
  from a [THEN conjunct1] b [THEN conjunct2, THEN conjunct1] c d show ?thesis by blast
qed

text \<open>
  The claim as first stated, that the link is rendered whenever \<open>grafana_url\<close> is present,
  fails for a response whose \<open>grafana_url\<close> is the empty string: the guard
  \<open>response.grafana_url && ...\<close> is falsy and the child is the empty string, not the link.
\<close>

theorem grafana_link_empty_counterexample:
  "is_QueryResponse (JObject example_answer_empty_link)
   \<and> member (JObject example_answer_empty_link) (js_str ''grafana_url'') = Some (JString [])
   \<and> grafana_child example_runtime (Some (JObject example_answer_empty_link)) =
       Inr (Value (Some (JString [])))"
proof -
  have a: "is_QueryResponse (JObject example_answer_empty_link)"
    by (simp add: example_answer_empty_link_def example_answer_def js_str_def)
  have b: "member (JObject example_answer_empty_link) (js_str ''grafana_url'') = Some (JString [])"
    by (simp add: example_answer_empty_link_def)
  have c: "grafana_child example_runtime (Some (JObject example_answer_empty_link)) =
       Inr (Value (Some (JString [])))"
    by (simp add: grafana_child_eq example_answer_empty_link_def)
  from a b c show ?thesis by blast
qed

text \<open>
  C8 (as amended). A run of \<open>handleSubmit\<close> that passes the guard ends with loading reset
  to false on every path, whatever response and error were before: a rejected fetch, a
  non-success status and a body that is not JSON or is \<open>null\<close> set the error and leave
  the response null; a document delivered with a success status becomes the response, and
  the error stays null when the \<open>execution_time\<close> of the document has a primitive value,
  as every number has. Hence loading is false after any run of the handler in any state
  the page can reach, and at most one of response and error is non-null there as long as
  the networks deliver only such documents.
\<close>

theorem handleSubmit_settles:
  "(trim (query s) \<noteq> [] \<longrightarrow>
      loading (fst (handleSubmit rt env net s)) = False \<and>
      (case delivered net (query_request env (query s)) of
         None \<Rightarrow>
           response (fst (handleSubmit rt env net s)) = JNull \<and>
           error (fst (handleSubmit rt env net s)) \<noteq> None
       | Some doc \<Rightarrow>
           if doc = JNull
           then response (fst (handleSubmit rt env net s)) = JNull \<and>
                error (fst (handleSubmit rt env net s)) \<noteq> None
           else response (fst (handleSubmit rt env net s)) = doc \<and>
                (time_converts doc \<longrightarrow> error (fst (handleSubmit rt env net s)) = None)))
   \<and> loading (fst (handleSubmit rt env net (run rt env evs initial_state))) = False
   \<and> (typed_network net \<and> list_all typed_event evs \<longrightarrow>
        settled (fst (handleSubmit rt env net (run rt env evs initial_state))))"
proof (intro conjI impI)
  assume q: "trim (query s) \<noteq> []"
  show "loading (fst (handleSubmit rt env net s)) = False"
  proof (cases "delivered net (query_request env (query s))")
    case None
    from handleSubmit_not_delivered [OF q None] show ?thesis by simp
  next
    case (Some doc)
    from handleSubmit_delivered [OF q Some] show ?thesis by simp
  qed
  show "case delivered net (query_request env (query s)) of
         None \<Rightarrow>
           response (fst (handleSubmit rt env net s)) = JNull \<and>
           error (fst (handleSubmit rt env net s)) \<noteq> None
       | Some doc \<Rightarrow>
           if doc = JNull
           then response (fst (handleSubmit rt env net s)) = JNull \<and>
                error (fst (handleSubmit rt env net s)) \<noteq> None
           else response (fst (handleSubmit rt env net s)) = doc \<and>
                (time_converts doc \<longrightarrow> error (fst (handleSubmit rt env net s)) = None)"
  proof (cases "delivered net (query_request env (query s))")
    case None
    from handleSubmit_not_delivered [OF q None] show ?thesis
      using None by auto
  next
    case (Some doc)
    show ?thesis
    proof (cases "doc = JNull")
      case True
      then obtain m where "handleSubmit rt env net s =
         (s\<lparr>loading := False, error := Some m, response := JNull\<rparr>,
          [PreventDefault, Fetch (query_request env (query s)),
           Toast \<lparr>title = js_str ''Query failed'', description = m,
                  variant = Some (js_str ''destructive'')\<rparr>])"
        using handleSubmit_failure [OF q] Some by blast
      then show ?thesis using Some True by simp
    next
      case False
      have r: "response (fst (handleSubmit rt env net s)) = doc"
        using handleSubmit_delivered [OF q Some] by simp
      have e: "time_converts doc \<longrightarrow> error (fst (handleSubmit rt env net s)) = None"
      proof
        assume "time_converts doc"
        then obtain ms where "milliseconds rt (member doc (js_str ''execution_time'')) = Inr ms"
          using milliseconds_converts unfolding time_converts_def by blast
        from handleSubmit_success [OF q Some False this]
        show "error (fst (handleSubmit rt env net s)) = None" by simp
      qed
      from r e show ?thesis using Some False by simp
    qed
  qed
next
  show "loading (fst (handleSubmit rt env net (run rt env evs initial_state))) = False"
    by (intro handleSubmit_loading run_loading) (simp add: initial_state_def)
next
  assume "typed_network net \<and> list_all typed_event evs"
  then show "settled (fst (handleSubmit rt env net (run rt env evs initial_state)))"
    by (intro handleSubmit_settled run_settled initial_settled) simp_all
qed

theorem handleSubmit_settles_witness:
  "response (fst (handleSubmit example_runtime None (replies 200 (JObject example_answer)) asking_state))
     = JObject example_answer
   \<and> error (fst (handleSubmit example_runtime None (replies 200 (JObject example_answer)) asking_state))
     = None
   \<and> loading (fst (handleSubmit example_runtime None (replies 200 (JObject example_answer)) asking_state))
     = False
   \<and> response (fst (handleSubmit example_runtime None network_down asking_state)) = JNull
   \<and> error (fst (handleSubmit example_runtime None network_down asking_state)) \<noteq> None
   \<and> settled (fst (handleSubmit example_runtime None network_down
        (run example_runtime None
           [ExampleClick 0, Submit (replies 200 (JObject example_answer))] initial_state)))"
proof -
  note ok = handleSubmit_settles [of asking_state example_runtime None "replies 200 (JObject example_answer)",
      THEN conjunct1, rule_format, OF trim_asking]
  note down = handleSubmit_settles [of asking_state example_runtime None network_down,
      THEN conjunct1, rule_format, OF trim_asking]
  have ty: "typed_network network_down \<and>
      list_all typed_event [ExampleClick 0, Submit (replies 200 (JObject example_answer))]"
    by (simp add: typed_down typed_replies example_time_converts)
  note inv = handleSubmit_settles [of asking_state example_runtime None network_down
      "[ExampleClick 0, Submit (replies 200 (JObject example_answer))]",
      THEN conjunct2, THEN conjunct2, rule_format, OF ty]
  from ok have a: "response (fst (handleSubmit example_runtime None (replies 200 (JObject example_answer)) asking_state))
     = JObject example_answer
   \<and> error (fst (handleSubmit example_runtime None (replies 200 (JObject example_answer)) asking_state))
     = None
   \<and> loading (fst (handleSubmit example_runtime None (replies 200 (JObject example_answer)) asking_state))
     = False"
    by (simp add: delivered_replies example_time_converts)
  from down have b: "response (fst (handleSubmit example_runtime None network_down asking_state)) = JNull
   \<and> error (fst (handleSubmit example_runtime None network_down asking_state)) \<noteq> None"
    by (simp add: delivered_down)
  from a b inv show ?thesis by blast
qed

text \<open>
  The claim as first stated, that at most one of response and error is non-null after any
  run, fails on a reply with a success status whose \<open>execution_time\<close> is an object with
  an own property \<open>toString\<close>: the response is set, then the product
  \<open>data.execution_time * 1000\<close> throws a TypeError, and the \<open>catch\<close> clause sets the
  error.
\<close>

theorem response_and_error_counterexample:
  "response (fst (handleSubmit example_runtime None (replies 200 odd_time) asking_state)) = odd_time
   \<and> error (fst (handleSubmit example_runtime None (replies 200 odd_time) asking_state)) =
       Some (js_str ''Cannot convert object to primitive value'')
   \<and> \<not> settled (fst (handleSubmit example_runtime None (replies 200 odd_time) asking_state))"
proof -
  have n: "odd_time \<noteq> JNull" by (simp add: odd_time_def)
  have h: "handleSubmit example_runtime None (replies 200 odd_time) asking_state =
     (asking_state\<lparr>loading := False, error := Some (not_primitive_message example_runtime),
        response := odd_time\<rparr>,
      [PreventDefault, Fetch (query_request None (query asking_state)),
       Toast \<lparr>title = js_str ''Query failed'', description = not_primitive_message example_runtime,
              variant = Some (js_str ''destructive'')\<rparr>])"
    by (rule handleSubmit_stored [where net = "replies 200 odd_time", OF trim_asking delivered_example n odd_time_converts])
  have m: "not_primitive_message example_runtime =
      js_str ''Cannot convert object to primitive value''"
    by (simp add: example_runtime_def)
  show ?thesis
    using n by (simp add: h settled_def m)
qed

text \<open>
  C9. \<open>getApiUrl\<close> is a function of the build-time variable alone: it returns
  \<open>VITE_API_URL\<close> when that is set and non-empty and \<open>http://localhost:8000\<close> otherwise,
  and the endpoint of the request is that address followed by \<open>/query\<close>.
\<close>

theorem getApiUrl_configured_or_default:
  "getApiUrl env =
     Some (JString (case env of
                      None \<Rightarrow> js_str ''http://localhost:8000''
                    | Some u \<Rightarrow> if u = [] then js_str ''http://localhost:8000'' else u))
   \<and> (case submit_request rt env q of
         Inl thrown \<Rightarrow> False
       | Inr req \<Rightarrow>
           url req =
             (case env of
                None \<Rightarrow> js_str ''http://localhost:8000''
              | Some u \<Rightarrow> if u = [] then js_str ''http://localhost:8000'' else u)
             @ js_str ''/query'')"
  by (cases env) (simp_all add: getApiUrl_def js_or_def submit_request_def)

theorem getApiUrl_configured_or_default_witness:
  "getApiUrl (Some (js_str ''http://api:9000'')) = Some (JString (js_str ''http://api:9000''))
   \<and> getApiUrl (Some []) = Some (JString (js_str ''http://localhost:8000''))
   \<and> getApiUrl None = Some (JString (js_str ''http://localhost:8000''))"
proof -
  have a: "getApiUrl (Some (js_str ''http://api:9000'')) = Some (JString (js_str ''http://api:9000''))"
    using getApiUrl_configured_or_default [of "Some (js_str ''http://api:9000'')", THEN conjunct1]
    by (simp add: js_str_def)
  have b: "getApiUrl (Some []) = Some (JString (js_str ''http://localhost:8000''))"
    using getApiUrl_configured_or_default [of "Some []", THEN conjunct1] by simp
  have c: "getApiUrl None = Some (JString (js_str ''http://localhost:8000''))"
    using getApiUrl_configured_or_default [of None, THEN conjunct1] by simp
  from a b c show ?thesis by simp
qed

text \<open>
  C10 (as amended). Under the guard \<open>{response && ...}\<close> of the response display, the
  Data Points count never throws: it is the length of a result array or string, the
  \<open>length\<close> member of a result object when that member is truthy, and 0 in every other
  case, in particular when \<open>raw_data\<close> or its \<open>result\<close> is absent or \<open>null\<close>. The Raw
  Data panel is rendered only when \<open>raw_data.result\<close> exists and is non-empty (for an
  array or a string: exactly when it is non-empty), and its guard evaluates without
  throwing unless the result is an object whose \<open>length\<close> has no primitive value.
\<close>

theorem raw_data_guarded:
  assumes "truthy (Some resp)"
  shows "(\<exists>n. data_points rt (Some resp) = Inr n)
    \<and> (guard_converts resp \<longrightarrow> (\<exists>c. raw_data_child rt (Some resp) = Inr c))
    \<and> (\<forall>xs. raw_result resp = Some (JArray xs) \<longrightarrow>
          data_points rt (Some resp) = Inr (Some (JNumber (Finite (of_nat (length xs)))))
          \<and> raw_data_child rt (Some resp) =
              Inr (if xs = [] then Value (Some (JBool False))
                   else Element (member resp (js_str ''raw_data''))))
    \<and> (\<forall>str. raw_result resp = Some (JString str) \<longrightarrow>
          data_points rt (Some resp) = Inr (Some (JNumber (Finite (of_nat (length str)))))
          \<and> raw_data_child rt (Some resp) =
              Inr (if str = [] then Value (Some (JString []))
                   else Element (member resp (js_str ''raw_data''))))
    \<and> (\<forall>kvs. raw_result resp = Some (JObject kvs) \<longrightarrow>
          data_points rt (Some resp) =
            Inr (if truthy (map_of kvs (js_str ''length'')) then map_of kvs (js_str ''length'')
                 else Some (JNumber (Finite 0))))
    \<and> (\<forall>b. raw_result resp = Some (JBool b) \<longrightarrow>
          data_points rt (Some resp) = Inr (Some (JNumber (Finite 0))))
    \<and> (\<forall>x. raw_result resp = Some (JNumber x) \<longrightarrow>
          data_points rt (Some resp) = Inr (Some (JNumber (Finite 0))))
    \<and> (raw_result resp = None \<or> raw_result resp = Some JNull \<longrightarrow>
          data_points rt (Some resp) = Inr (Some (JNumber (Finite 0)))
          \<and> raw_data_child rt (Some resp) = Inr (Value (raw_result resp)))
    \<and> (\<forall>shown. raw_data_child rt (Some resp) = Inr (Element shown) \<longrightarrow>
          shown = member resp (js_str ''raw_data'')
          \<and> (\<exists>r. raw_result resp = Some r \<and> non_empty r))"
proof -
  note dp = data_points_eq [OF assms]
  have total: "\<exists>n. data_points rt (Some resp) = Inr n"
    using data_points_total [OF assms] .
  have guard: "guard_converts resp \<longrightarrow> (\<exists>c. raw_data_child rt (Some resp) = Inr c)"
    using raw_data_child_total [OF assms] by blast
  have arr: "\<forall>xs. raw_result resp = Some (JArray xs) \<longrightarrow>
          data_points rt (Some resp) = Inr (Some (JNumber (Finite (of_nat (length xs)))))
          \<and> raw_data_child rt (Some resp) =
              Inr (if xs = [] then Value (Some (JBool False))
                   else Element (member resp (js_str ''raw_data'')))"
  proof (intro allI impI conjI)
    fix xs assume r: "raw_result resp = Some (JArray xs)"
    show "data_points rt (Some resp) = Inr (Some (JNumber (Finite (of_nat (length xs)))))"
      by (cases xs) (simp_all add: dp r length_read_array js_or_def)
    show "raw_data_child rt (Some resp) =
              Inr (if xs = [] then Value (Some (JBool False))
                   else Element (member resp (js_str ''raw_data'')))"
      using raw_data_child_array [OF assms r] .
  qed
  have str: "\<forall>str. raw_result resp = Some (JString str) \<longrightarrow>
          data_points rt (Some resp) = Inr (Some (JNumber (Finite (of_nat (length str)))))
          \<and> raw_data_child rt (Some resp) =
              Inr (if str = [] then Value (Some (JString []))
                   else Element (member resp (js_str ''raw_data'')))"
  proof (intro allI impI conjI)
    fix str assume r: "raw_result resp = Some (JString str)"
    show "data_points rt (Some resp) = Inr (Some (JNumber (Finite (of_nat (length str)))))"
      by (cases str) (simp_all add: dp r length_read_string js_or_def)
    show "raw_data_child rt (Some resp) =
              Inr (if str = [] then Value (Some (JString []))
                   else Element (member resp (js_str ''raw_data'')))"
      using raw_data_child_string [OF assms r] .
  qed
  have obj: "\<forall>kvs. raw_result resp = Some (JObject kvs) \<longrightarrow>
          data_points rt (Some resp) =
            Inr (if truthy (map_of kvs (js_str ''length'')) then map_of kvs (js_str ''length'')
                 else Some (JNumber (Finite 0)))"
    by (simp add: dp length_read_object js_or_def)
  have bool: "\<forall>b. raw_result resp = Some (JBool b) \<longrightarrow>
          data_points rt (Some resp) = Inr (Some (JNumber (Finite 0)))"
    by (simp add: dp length_read_other js_or_def)
  have num: "\<forall>x. raw_result resp = Some (JNumber x) \<longrightarrow>
          data_points rt (Some resp) = Inr (Some (JNumber (Finite 0)))"
    by (simp add: dp length_read_other js_or_def)
  have absent: "raw_result resp = None \<or> raw_result resp = Some JNull \<longrightarrow>
          data_points rt (Some resp) = Inr (Some (JNumber (Finite 0)))
          \<and> raw_data_child rt (Some resp) = Inr (Value (raw_result resp))"
  proof (intro impI conjI)
    assume a: "raw_result resp = None \<or> raw_result resp = Some JNull"
    show "data_points rt (Some resp) = Inr (Some (JNumber (Finite 0)))"
      by (simp add: dp length_read_absent [OF a] js_or_def)
    show "raw_data_child rt (Some resp) = Inr (Value (raw_result resp))"
      using a by (auto simp: raw_data_child_eq [OF assms])
  qed
  have only: "\<forall>shown. raw_data_child rt (Some resp) = Inr (Element shown) \<longrightarrow>
          shown = member resp (js_str ''raw_data'')
          \<and> (\<exists>r. raw_result resp = Some r \<and> non_empty r)"
    using raw_data_child_element [OF assms] by blast
  from total guard arr str obj bool num absent only show ?thesis by (intro conjI)
qed

theorem raw_data_guarded_witness:
  "truthy (Some (JObject example_answer))
   \<and> data_points example_runtime (Some (JObject example_answer)) = Inr (Some (JNumber (Finite 1)))
   \<and> raw_data_child example_runtime (Some (JObject example_answer)) =
       Inr (Element (member (JObject example_answer) (js_str ''raw_data'')))"
proof -
  have t: "truthy (Some (JObject example_answer))" by simp
  note inst = raw_data_guarded [OF t, of example_runtime, THEN conjunct2, THEN conjunct2,
      THEN conjunct1, rule_format, OF example_raw_result]
  from t inst show ?thesis by simp
qed

text \<open>
  The claim as first stated, that the reads of the result never crash, fails for a
  response whose \<open>raw_data.result\<close> is an object with a \<open>length\<close> that is an object
  with an own property \<open>toString\<close>: the comparison \<open>raw_data.result.length > 0\<close> throws
  a TypeError and the component function throws with it.
\<close>

theorem raw_data_guard_counterexample:
  "truthy (Some odd_length)
   \<and> raw_data_child example_runtime (Some odd_length) =
       Inl (ThrownError (js_str ''Cannot convert object to primitive value''))
   \<and> render example_runtime (initial_state\<lparr>response := odd_length\<rparr>) =
       Inl (ThrownError (js_str ''Cannot convert object to primitive value''))"
proof -
  have t: "truthy (Some odd_length)" by (simp add: odd_length_def)
  have m: "not_primitive_message example_runtime =
      js_str ''Cannot convert object to primitive value''"
    by (simp add: example_runtime_def)
  have c: "raw_data_child example_runtime (Some odd_length) =
       Inl (ThrownError (js_str ''Cannot convert object to primitive value''))"
    using raw_data_child_throws [OF t odd_length_guard, of example_runtime] by (simp add: m)
  obtain n where n: "data_points example_runtime (Some odd_length) = Inr n"
    using data_points_total [OF t] by blast
  have ms: "milliseconds example_runtime (member odd_length (js_str ''execution_time'')) =
      Inr (number_toFixed0 example_runtime (number_times example_runtime NaN (Finite 1000)) @ js_str ''ms'')"
    by (simp add: milliseconds_def odd_length_def js_str_def)
  have rr: "render_response example_runtime (Some odd_length) =
       Inl (ThrownError (js_str ''Cannot convert object to primitive value''))"
    by (simp add: render_response_eq [OF t] ms n c)
  have "render example_runtime (initial_state\<lparr>response := odd_length\<rparr>) =
       Inl (ThrownError (js_str ''Cannot convert object to primitive value''))"
    using t by (simp add: render_truthy rr)
  with t c show ?thesis by simp
qed

section \<open>Properties of the query pipeline\<close>

lemma first_match_positions:
  "first_match m rules text =
     (case filter (\<lambda>i. m (fst (rules ! i)) text) [0..<length rules] of
        [] \<Rightarrow> None
      | i # rest \<Rightarrow> Some (rules ! i))"
proof (induction rules)
  case Nil
  then show ?case by simp
next
  case (Cons rule rules)
  have shift: "filter (\<lambda>i. m (fst ((rule # rules) ! i)) text) [0..<length (rule # rules)] =
        (if m (fst rule) text then [0] else []) @
        map Suc (filter (\<lambda>i. m (fst (rules ! i)) text) [0..<length rules])"
    by (simp add: upt_conv_Cons map_Suc_upt [symmetric] filter_map comp_def
        del: upt_Suc)
  show ?case
  proof (cases "m (fst rule) text")
    case True
    then show ?thesis unfolding shift by simp
  next
    case False
    then show ?thesis
      unfolding shift by (simp add: Cons.IH split: list.splits)
  qed
qed

lemma first_match_none:
  "(\<forall>rule \<in> set rules. \<not> m (fst rule) text) \<Longrightarrow> first_match m rules text = None"
  by (induction rules) auto

lemma positions_sorted: "sorted (filter P [0..<n])"
  by (simp add: sorted_wrt_filter)

lemma example_positions:
  "matching_positions example_matcher example_rules ''What's the average CPU usage?'' = [0, 1, 2]"
  by (simp add: matching_positions_def example_matcher_def example_rules_def lower_ascii_def
      upt_conv_Cons)

lemma example_no_match:
  "\<forall>rule \<in> set example_rules.
     \<not> matches example_matcher (fst rule)
         (normalise_case example_matcher ''asdfjkl random text'')"
  by (simp add: example_matcher_def example_rules_def lower_ascii_def)

text \<open>
  C1. Whenever the patterns of two or more rules match the question, \<open>translate\<close> returns
  the template (with its defaults substituted) of the matching rule that stands earliest in
  the rule set: the position of the rule used is the least of all matching positions, and
  nothing else about the other matching rules enters the result.
\<close>

theorem translate_first_match:
  assumes "2 \<le> length (matching_positions mt rules question)"
  shows "translate mt rules question =
           Inr (substitute mt (snd (rules ! hd (matching_positions mt rules question))),
                classify mt (rules ! hd (matching_positions mt rules question)))
         \<and> hd (matching_positions mt rules question) < length rules
         \<and> (\<forall>i \<in> set (matching_positions mt rules question).
               hd (matching_positions mt rules question) \<le> i)"
proof -
  obtain i rest where mp: "matching_positions mt rules question = i # rest"
    using assms by (cases "matching_positions mt rules question") auto
  have "first_match (matches mt) rules (normalise_case mt question) = Some (rules ! i)"
    using mp by (simp add: first_match_positions matching_positions_def)
  then have t: "translate mt rules question =
      Inr (substitute mt (snd (rules ! i)), classify mt (rules ! i))"
    by (simp add: translate_def)
  have "i \<in> set (matching_positions mt rules question)"
    by (simp add: mp)
  then have b: "i < length rules"
    by (simp add: matching_positions_def)
  have "sorted (matching_positions mt rules question)"
    unfolding matching_positions_def by (rule positions_sorted)
  then have least: "\<forall>j \<in> set (matching_positions mt rules question). i \<le> j"
    by (auto simp: mp)
  from t b least show ?thesis by (simp add: mp)
qed

theorem translate_first_match_witness:
  "2 \<le> length (matching_positions example_matcher example_rules ''What's the average CPU usage?'')
   \<and> translate example_matcher example_rules ''What's the average CPU usage?'' =
       Inr (''avg(cpu_usage_percent)'', Unknown)"
  using translate_first_match [of example_matcher example_rules "''What's the average CPU usage?''"]
  by (simp add: example_positions) (simp add: example_matcher_def example_rules_def)

text \<open>
  C2. When no rule of the rule set matches the question, \<open>translate\<close> fails with
  \<open>UnrecognizedQuery\<close> carrying the original text (so no query, partial or whole, is
  returned), and \<open>answer\<close> fails in the same way without any query sent to the metrics
  store.
\<close>

theorem translate_unrecognized:
  assumes "\<forall>rule \<in> set rules. \<not> matches mt (fst rule) (normalise_case mt question)"
  shows "translate mt rules question = Inl (UnrecognizedQuery question)
         \<and> answer mt store synthesize rules question = (Inl (UnrecognizedQuery question), [])"
  using assms by (simp add: first_match_none translate_def answer_def)

theorem translate_unrecognized_witness:
  "translate example_matcher example_rules ''asdfjkl random text'' =
       Inl (UnrecognizedQuery ''asdfjkl random text'')
   \<and> answer example_matcher (\<lambda>q. (Unreachable :: (nat, nat) store_reply)) (\<lambda>k r q. ([], None))
        example_rules ''asdfjkl random text'' =
       (Inl (UnrecognizedQuery ''asdfjkl random text''), [])"
  using translate_unrecognized
    [where store = "\<lambda>q. (Unreachable :: (nat, nat) store_reply)"
       and synthesize = "\<lambda>k r q. ([], None)", OF example_no_match]
  by simp

end
